theory Spec2Isabelle
  imports Complex_Main
begin

section \<open>The anomaly detector of \<^verbatim>\<open>enhanced_detection_fixed.py\<close>\<close>

text \<open>
  A shallow embedding of \<^verbatim>\<open>EnhancedAnomalyDetector\<close>. Conventions:
  \<^item> a Python float is a value of \<open>pyfloat\<close>: a real number, one of the two infinities,
    or NaN, with the arithmetic and the comparisons of IEEE 754 on the special values;
    on finite values the arithmetic is exact (no rounding, no overflow, no negative zero);
  \<^item> a \<^verbatim>\<open>Dict[str, float]\<close> observation is an association list in insertion order,
    looked up with \<open>map_of\<close>; a Python dict has no repeated key, so a well-formed
    observation has \<open>distinct (map fst health_data)\<close>;
  \<^item> the detector object is the record \<open>detector\<close>, passed in and returned;
  \<^item> every raise is a value \<open>Inl e\<close>; an operation returns its outcome together with
    the detector as the raise or the return leaves it;
  \<^item> \<^verbatim>\<open>datetime.now()\<close> is the argument \<open>now\<close> of each operation (one reading per call);
  \<^item> the configuration is the \<^verbatim>\<open>default_config\<close> of \<^verbatim>\<open>_load_config\<close>, as for the
    module's global \<^verbatim>\<open>detector = EnhancedAnomalyDetector()\<close>; logging is left out,
    and so are the outlier models of \<^verbatim>\<open>_initialize_ml_models\<close>, which no operation
    reads.
\<close>

subsection \<open>Data\<close>

datatype AnomalySeverity = LOW | MEDIUM | HIGH | CRITICAL

datatype AnomalyType =
  HEART_RATE | BLOOD_PRESSURE | GLUCOSE | OXYGEN_SATURATION
  | TEMPERATURE | RESPIRATORY_RATE | ECG | MULTI_PARAMETER

datatype error = AttributeError | ZeroDivisionError | KeyError | ValueError

subsection \<open>Floats\<close>

datatype pyfloat = Fin real | PInf | NInf | NaN

text \<open>The infinity with the sign of a real number; NaN for 0 (as in \<^verbatim>\<open>inf * 0.0\<close>).\<close>

definition inf_of_sign :: "real \<Rightarrow> pyfloat" where
  "inf_of_sign x = (if 0 < x then PInf else if x < 0 then NInf else NaN)"

text \<open>
  The operators of Python on floats. NaN absorbs every operation and fails every
  comparison. A finite divisor 0 makes Python raise \<^verbatim>\<open>ZeroDivisionError\<close>; the quotient
  is NaN here, and each division of the detector is shown below to have a divisor other
  than 0, or is guarded by a test.
\<close>

instantiation pyfloat :: "{plus, uminus, times, divide, abs, ord}"
begin

fun plus_pyfloat :: "pyfloat \<Rightarrow> pyfloat \<Rightarrow> pyfloat" where
  "plus_pyfloat NaN y = NaN"
| "plus_pyfloat x NaN = NaN"
| "plus_pyfloat (Fin a) (Fin b) = Fin (a + b)"
| "plus_pyfloat PInf NInf = NaN"
| "plus_pyfloat NInf PInf = NaN"
| "plus_pyfloat PInf y = PInf"
| "plus_pyfloat x PInf = PInf"
| "plus_pyfloat NInf y = NInf"
| "plus_pyfloat x NInf = NInf"

fun uminus_pyfloat :: "pyfloat \<Rightarrow> pyfloat" where
  "uminus_pyfloat (Fin a) = Fin (- a)"
| "uminus_pyfloat PInf = NInf"
| "uminus_pyfloat NInf = PInf"
| "uminus_pyfloat NaN = NaN"

fun times_pyfloat :: "pyfloat \<Rightarrow> pyfloat \<Rightarrow> pyfloat" where
  "times_pyfloat NaN y = NaN"
| "times_pyfloat x NaN = NaN"
| "times_pyfloat (Fin a) (Fin b) = Fin (a * b)"
| "times_pyfloat PInf (Fin b) = inf_of_sign b"
| "times_pyfloat (Fin a) PInf = inf_of_sign a"
| "times_pyfloat NInf (Fin b) = inf_of_sign (- b)"
| "times_pyfloat (Fin a) NInf = inf_of_sign (- a)"
| "times_pyfloat PInf PInf = PInf"
| "times_pyfloat PInf NInf = NInf"
| "times_pyfloat NInf PInf = NInf"
| "times_pyfloat NInf NInf = PInf"

fun divide_pyfloat :: "pyfloat \<Rightarrow> pyfloat \<Rightarrow> pyfloat" where
  "divide_pyfloat NaN y = NaN"
| "divide_pyfloat x NaN = NaN"
| "divide_pyfloat (Fin a) (Fin b) = (if b = 0 then NaN else Fin (a / b))"
| "divide_pyfloat (Fin a) y = Fin 0"
| "divide_pyfloat PInf (Fin b) = inf_of_sign b"
| "divide_pyfloat NInf (Fin b) = inf_of_sign (- b)"
| "divide_pyfloat x y = NaN"

fun abs_pyfloat :: "pyfloat \<Rightarrow> pyfloat" where
  "abs_pyfloat (Fin a) = Fin \<bar>a\<bar>"
| "abs_pyfloat PInf = PInf"
| "abs_pyfloat NInf = PInf"
| "abs_pyfloat NaN = NaN"

fun less_eq_pyfloat :: "pyfloat \<Rightarrow> pyfloat \<Rightarrow> bool" where
  "less_eq_pyfloat NaN y = False"
| "less_eq_pyfloat x NaN = False"
| "less_eq_pyfloat (Fin a) (Fin b) = (a \<le> b)"
| "less_eq_pyfloat NInf y = True"
| "less_eq_pyfloat x PInf = True"
| "less_eq_pyfloat x y = False"

fun less_pyfloat :: "pyfloat \<Rightarrow> pyfloat \<Rightarrow> bool" where
  "less_pyfloat NaN y = False"
| "less_pyfloat x NaN = False"
| "less_pyfloat (Fin a) (Fin b) = (a < b)"
| "less_pyfloat NInf NInf = False"
| "less_pyfloat NInf y = True"
| "less_pyfloat PInf y = False"
| "less_pyfloat x PInf = True"
| "less_pyfloat x y = False"

instance ..

end

instantiation pyfloat :: "{minus, inverse}"
begin

definition minus_pyfloat :: "pyfloat \<Rightarrow> pyfloat \<Rightarrow> pyfloat" where
  "minus_pyfloat x y = x + (- y)"

definition inverse_pyfloat :: "pyfloat \<Rightarrow> pyfloat" where
  "inverse_pyfloat x = divide (Fin 1) x"

instance ..

end

text \<open>
  The builtins \<^verbatim>\<open>max(a, b)\<close> and \<^verbatim>\<open>min(a, b)\<close>: the first argument is kept unless the
  second is greater (smaller), so a NaN in second place is never chosen.
\<close>

definition py_max :: "pyfloat \<Rightarrow> pyfloat \<Rightarrow> pyfloat" where
  "py_max a b = (if a < b then b else a)"

definition py_min :: "pyfloat \<Rightarrow> pyfloat \<Rightarrow> pyfloat" where
  "py_min a b = (if b < a then b else a)"

text \<open>\<^verbatim>\<open>sum(xs)\<close>, which starts from 0 and adds from the left.\<close>

definition py_sum :: "pyfloat list \<Rightarrow> pyfloat" where
  "py_sum xs = foldl (+) (Fin 0) xs"

type_synonym datetime = nat

text \<open>\<^verbatim>\<open>AnomalyDetectionResult\<close>; the field \<^verbatim>\<open>value\<close> is \<open>val\<close> here.\<close>

record AnomalyDetectionResult =
  anomaly_type :: AnomalyType
  severity :: AnomalySeverity
  confidence :: pyfloat
  val :: pyfloat
  normal_range :: "pyfloat \<times> pyfloat"
  timestamp :: datetime
  description :: string
  recommendations :: "string list"
  risk_factors :: "string list"

record PatientBaseline =
  patient_id :: string
  heart_rate_baseline :: "pyfloat \<times> pyfloat"
  blood_pressure_baseline :: "pyfloat \<times> pyfloat"
  glucose_baseline :: "pyfloat \<times> pyfloat"
  oxygen_saturation_baseline :: "pyfloat \<times> pyfloat"
  temperature_baseline :: "pyfloat \<times> pyfloat"
  respiratory_rate_baseline :: "pyfloat \<times> pyfloat"
  last_updated :: datetime
  sample_count :: int

text \<open>The two dictionaries of the detector object.\<close>

record detector =
  baselines :: "string \<rightharpoonup> PatientBaseline"
  anomaly_history :: "string \<rightharpoonup> AnomalyDetectionResult list"

text \<open>\<^verbatim>\<open>__init__\<close>: both dictionaries empty.\<close>

definition init :: detector where
  "init = \<lparr>baselines = Map.empty, anomaly_history = Map.empty\<rparr>"

subsection \<open>Configuration\<close>

text \<open>\<^verbatim>\<open>default_config["normal_ranges"]\<close>.\<close>

definition normal_ranges :: "(string \<times> (pyfloat \<times> pyfloat)) list" where
  "normal_ranges =
    [(''heart_rate'', (Fin 60, Fin 100)),
     (''blood_pressure_systolic'', (Fin 90, Fin 140)),
     (''blood_pressure_diastolic'', (Fin 60, Fin 90)),
     (''glucose'', (Fin 70, Fin 140)),
     (''oxygen_saturation'', (Fin 95, Fin 100)),
     (''temperature'', (Fin 36.1, Fin 37.2)),
     (''respiratory_rate'', (Fin 12, Fin 20))]"

text \<open>\<^verbatim>\<open>self.config["normal_ranges"][k]\<close>: a missing key raises \<^verbatim>\<open>KeyError\<close>.\<close>

definition config_range :: "string \<Rightarrow> error + pyfloat \<times> pyfloat" where
  "config_range k = (case map_of normal_ranges k of None \<Rightarrow> Inl KeyError | Some r \<Rightarrow> Inr r)"

subsection \<open>\<^verbatim>\<open>update_patient_baseline\<close>\<close>

text \<open>Sequencing of two steps of which the first may raise.\<close>

definition bind_err :: "error + 'a \<Rightarrow> ('a \<Rightarrow> error + 'b) \<Rightarrow> error + 'b" where
  "bind_err m f = (case m of Inl e \<Rightarrow> Inl e | Inr x \<Rightarrow> f x)"

text \<open>The baseline of a subject seen for the first time (lines 141 to 152).\<close>

definition seed_baseline :: "string \<Rightarrow> datetime \<Rightarrow> error + PatientBaseline" where
  "seed_baseline pid now =
    bind_err (config_range ''heart_rate'') (\<lambda>hr.
    bind_err (config_range ''blood_pressure_systolic'') (\<lambda>bp.
    bind_err (config_range ''glucose'') (\<lambda>gl.
    bind_err (config_range ''oxygen_saturation'') (\<lambda>ox.
    bind_err (config_range ''temperature'') (\<lambda>te.
    bind_err (config_range ''respiratory_rate'') (\<lambda>rr.
       Inr \<lparr>patient_id = pid,
            heart_rate_baseline = hr,
            blood_pressure_baseline = (fst bp, snd bp),
            glucose_baseline = gl,
            oxygen_saturation_baseline = ox,
            temperature_baseline = te,
            respiratory_rate_baseline = rr,
            last_updated = now,
            sample_count = 1\<rparr>))))))"

text \<open>One interval moved towards a reading: \<^verbatim>\<open>(b[0] * weight_old + x * weight_new,
  b[1] * weight_old + x * weight_new)\<close>.\<close>

definition weighted ::
  "pyfloat \<times> pyfloat \<Rightarrow> pyfloat \<Rightarrow> pyfloat \<Rightarrow> pyfloat \<Rightarrow> pyfloat \<times> pyfloat" where
  "weighted b x weight_old weight_new =
    (fst b * weight_old + x * weight_new, snd b * weight_old + x * weight_new)"

text \<open>The six \<^verbatim>\<open>if '...' in health_data\<close> blocks (lines 159 to 203), in the source's order.\<close>

definition update_intervals ::
  "PatientBaseline \<Rightarrow> (string \<times> pyfloat) list \<Rightarrow> pyfloat \<Rightarrow> pyfloat \<Rightarrow> PatientBaseline" where
  "update_intervals baseline health_data weight_old weight_new =
    (let b1 = (case map_of health_data ''heart_rate'' of None \<Rightarrow> baseline
               | Some hr \<Rightarrow> baseline\<lparr>heart_rate_baseline :=
                   weighted (heart_rate_baseline baseline) hr weight_old weight_new\<rparr>);
         b2 = (case map_of health_data ''blood_pressure_systolic'' of None \<Rightarrow> b1
               | Some bp_sys \<Rightarrow> b1\<lparr>blood_pressure_baseline :=
                   weighted (blood_pressure_baseline b1) bp_sys weight_old weight_new\<rparr>);
         b3 = (case map_of health_data ''glucose'' of None \<Rightarrow> b2
               | Some glucose \<Rightarrow> b2\<lparr>glucose_baseline :=
                   weighted (glucose_baseline b2) glucose weight_old weight_new\<rparr>);
         b4 = (case map_of health_data ''oxygen_saturation'' of None \<Rightarrow> b3
               | Some o2 \<Rightarrow> b3\<lparr>oxygen_saturation_baseline :=
                   weighted (oxygen_saturation_baseline b3) o2 weight_old weight_new\<rparr>);
         b5 = (case map_of health_data ''temperature'' of None \<Rightarrow> b4
               | Some temp \<Rightarrow> b4\<lparr>temperature_baseline :=
                   weighted (temperature_baseline b4) temp weight_old weight_new\<rparr>);
         b6 = (case map_of health_data ''respiratory_rate'' of None \<Rightarrow> b5
               | Some rr \<Rightarrow> b5\<lparr>respiratory_rate_baseline :=
                   weighted (respiratory_rate_baseline b5) rr weight_old weight_new\<rparr>)
     in b6)"

text \<open>
  \<^verbatim>\<open>update_patient_baseline\<close>. \<^verbatim>\<open>1.0 / sample_count\<close> raises \<^verbatim>\<open>ZeroDivisionError\<close> when
  the new count is 0; that is before any assignment, so the detector is then unchanged.
  The readings are not checked: a NaN or an infinite reading enters the average.
\<close>

definition update_patient_baseline ::
  "detector \<Rightarrow> string \<Rightarrow> (string \<times> pyfloat) list \<Rightarrow> datetime
    \<Rightarrow> (error + PatientBaseline) \<times> detector" where
  "update_patient_baseline s pid health_data now =
    (case (case baselines s pid of
             Some b \<Rightarrow> Inr (b, sample_count b + 1)
           | None \<Rightarrow> (case seed_baseline pid now of Inl e \<Rightarrow> Inl e | Inr b \<Rightarrow> Inr (b, 1))) of
       Inl e \<Rightarrow> (Inl e, s)
     | Inr (baseline, n) \<Rightarrow>
         if n = 0 then (Inl ZeroDivisionError, s)
         else
           let weight_new = Fin 1 / Fin (real_of_int n);
               weight_old = Fin 1 - weight_new;
               b' = (update_intervals baseline health_data weight_old weight_new)
                      \<lparr>last_updated := now, sample_count := n\<rparr>
           in (Inr b', s\<lparr>baselines := (baselines s)(pid \<mapsto> b')\<rparr>))"

subsection \<open>Text helpers\<close>

text \<open>
  The format specifications of \<^verbatim>\<open>_generate_anomaly_description\<close> are written
  \<^verbatim>\<open>{value".0f"}\<close> in the source text, which Python does not accept; they are read here
  as \<^verbatim>\<open>{value:.0f}\<close> and \<^verbatim>\<open>{value:.1f}\<close>: the value rounded to the nearest integer
  (tenth), ties to even, in decimal digits; \<^verbatim>\<open>inf\<close>, \<^verbatim>\<open>-inf\<close> and \<^verbatim>\<open>nan\<close> for the
  special values.
\<close>

fun digits :: "nat \<Rightarrow> string" where
  "digits n =
    (if n < 10 then [char_of (48 + n)]
     else digits (n div 10) @ [char_of (48 + n mod 10)])"

declare digits.simps [simp del]

definition round_half_even :: "real \<Rightarrow> int" where
  "round_half_even x =
    (let f = \<lfloor>x\<rfloor>; d = x - of_int f
     in if d < 1 / 2 then f else if 1 / 2 < d then f + 1
        else if even f then f else f + 1)"

definition sign_text :: "real \<Rightarrow> string" where
  "sign_text x = (if x < 0 then [CHR ''-''] else [])"

fun fmt_0f :: "pyfloat \<Rightarrow> string" where
  "fmt_0f (Fin x) = sign_text x @ digits (nat (round_half_even \<bar>x\<bar>))"
| "fmt_0f PInf = ''inf''"
| "fmt_0f NInf = ''-inf''"
| "fmt_0f NaN = ''nan''"

fun fmt_1f :: "pyfloat \<Rightarrow> string" where
  "fmt_1f (Fin x) =
    (let n = nat (round_half_even (\<bar>x\<bar> * 10))
     in sign_text x @ digits (n div 10) @ [CHR ''.''] @ digits (n mod 10))"
| "fmt_1f PInf = ''inf''"
| "fmt_1f NInf = ''-inf''"
| "fmt_1f NaN = ''nan''"

text \<open>\<^verbatim>\<open>AnomalyType.X.value\<close>.\<close>

fun anomaly_type_value :: "AnomalyType \<Rightarrow> string" where
  "anomaly_type_value HEART_RATE = ''heart_rate''"
| "anomaly_type_value BLOOD_PRESSURE = ''blood_pressure''"
| "anomaly_type_value GLUCOSE = ''glucose''"
| "anomaly_type_value OXYGEN_SATURATION = ''oxygen_saturation''"
| "anomaly_type_value TEMPERATURE = ''temperature''"
| "anomaly_type_value RESPIRATORY_RATE = ''respiratory_rate''"
| "anomaly_type_value ECG = ''ecg''"
| "anomaly_type_value MULTI_PARAMETER = ''multi_parameter''"

text \<open>\<^verbatim>\<open>str.replace\<close> of one character by another, and \<^verbatim>\<open>str.title\<close> on ASCII text.\<close>

definition replace_char :: "char \<Rightarrow> char \<Rightarrow> string \<Rightarrow> string" where
  "replace_char a b cs = map (\<lambda>c. if c = a then b else c) cs"

definition is_lower :: "char \<Rightarrow> bool" where
  "is_lower c \<longleftrightarrow> 97 \<le> (of_char c :: nat) \<and> (of_char c :: nat) \<le> 122"

definition is_upper :: "char \<Rightarrow> bool" where
  "is_upper c \<longleftrightarrow> 65 \<le> (of_char c :: nat) \<and> (of_char c :: nat) \<le> 90"

definition to_upper :: "char \<Rightarrow> char" where
  "to_upper c = (if is_lower c then char_of ((of_char c :: nat) - 32) else c)"

definition to_lower :: "char \<Rightarrow> char" where
  "to_lower c = (if is_upper c then char_of ((of_char c :: nat) + 32) else c)"

fun title_from :: "bool \<Rightarrow> string \<Rightarrow> string" where
  "title_from in_word [] = []"
| "title_from in_word (c # cs) =
    (if is_lower c \<or> is_upper c
     then (if in_word then to_lower c else to_upper c) # title_from True cs
     else c # title_from False cs)"

definition title :: "string \<Rightarrow> string" where
  "title cs = title_from False cs"

text \<open>\<^verbatim>\<open>sep.join(xs)\<close>.\<close>

fun join :: "string \<Rightarrow> string list \<Rightarrow> string" where
  "join sep [] = []"
| "join sep [x] = x"
| "join sep (x # y # ys) = x @ sep @ join sep (y # ys)"

subsection \<open>Descriptions, recommendations, risk factors\<close>

text \<open>\<^verbatim>\<open>_generate_anomaly_description\<close>: every type is a key of \<^verbatim>\<open>descriptions\<close>, so
  the default of \<^verbatim>\<open>.get\<close> is never taken. The degree sign is the character 0xB0.\<close>

fun generate_anomaly_description ::
  "AnomalyType \<Rightarrow> pyfloat \<Rightarrow> pyfloat \<times> pyfloat \<Rightarrow> string" where
  "generate_anomaly_description HEART_RATE v r =
     ''Heart rate of '' @ fmt_0f v @ '' bpm is outside normal range ('' @ fmt_0f (fst r)
       @ ''-'' @ fmt_0f (snd r) @ '' bpm)''"
| "generate_anomaly_description BLOOD_PRESSURE v r =
     ''Blood pressure reading of '' @ fmt_0f v @ '' mmHg is outside normal range''"
| "generate_anomaly_description GLUCOSE v r =
     ''Glucose level of '' @ fmt_0f v @ '' mg/dL is outside normal range ('' @ fmt_0f (fst r)
       @ ''-'' @ fmt_0f (snd r) @ '' mg/dL)''"
| "generate_anomaly_description OXYGEN_SATURATION v r =
     ''Oxygen saturation of '' @ fmt_0f v @ ''% is below normal range ('' @ fmt_0f (fst r)
       @ ''-'' @ fmt_0f (snd r) @ ''%)''"
| "generate_anomaly_description TEMPERATURE v r =
     ''Temperature of '' @ fmt_1f v @ [CHR 0xB0] @ ''C is outside normal range (''
       @ fmt_1f (fst r) @ ''-'' @ fmt_1f (snd r) @ [CHR 0xB0] @ ''C)''"
| "generate_anomaly_description RESPIRATORY_RATE v r =
     ''Respiratory rate of '' @ fmt_0f v @ '' breaths/min is outside normal range (''
       @ fmt_0f (fst r) @ ''-'' @ fmt_0f (snd r) @ '' breaths/min)''"
| "generate_anomaly_description ECG v r = ''ECG abnormalities detected''"
| "generate_anomaly_description MULTI_PARAMETER v r =
     ''Multiple vital signs showing abnormal readings''"

text \<open>\<^verbatim>\<open>base_recommendations.get(anomaly_type, [...])\<close>.\<close>

fun base_recommendations :: "AnomalyType \<Rightarrow> string list" where
  "base_recommendations HEART_RATE =
     [''Monitor heart rate closely'', ''Rest and avoid strenuous activity'',
      ''Contact healthcare provider if symptoms persist'']"
| "base_recommendations BLOOD_PRESSURE =
     [''Monitor blood pressure regularly'', ''Follow prescribed medication schedule'',
      ''Reduce sodium intake and stress'']"
| "base_recommendations GLUCOSE =
     [''Monitor blood glucose levels'', ''Follow diabetic care plan'',
      ''Contact healthcare provider for significant changes'']"
| "base_recommendations OXYGEN_SATURATION =
     [''Ensure adequate rest'', ''Monitor breathing patterns'',
      ''Seek immediate medical attention if below 90%'']"
| "base_recommendations TEMPERATURE =
     [''Monitor temperature regularly'', ''Stay hydrated'',
      ''Rest and avoid temperature extremes'']"
| "base_recommendations RESPIRATORY_RATE =
     [''Monitor breathing rate'', ''Ensure adequate rest'',
      ''Contact healthcare provider if breathing difficulty persists'']"
| "base_recommendations t = [''Monitor condition closely'', ''Contact healthcare provider'']"

definition generate_recommendations ::
  "AnomalyType \<Rightarrow> AnomalySeverity \<Rightarrow> pyfloat \<Rightarrow> string list" where
  "generate_recommendations t sev v =
    (let recommendations = base_recommendations t
     in if sev \<in> set [HIGH, CRITICAL]
        then [''Seek immediate medical attention''] @ recommendations
               @ [''Prepare emergency contact information'']
        else recommendations)"

definition identify_risk_factors ::
  "AnomalyType \<Rightarrow> AnomalySeverity \<Rightarrow> pyfloat \<Rightarrow> string list" where
  "identify_risk_factors t sev v =
    (let r1 = (if sev \<in> set [HIGH, CRITICAL] then [''High severity anomaly''] else []);
         r2 = (if t = OXYGEN_SATURATION \<and> v < Fin 92
               then r1 @ [''Potential respiratory distress''] else r1);
         r3 = (if t = HEART_RATE
               then (if v > Fin 120 then r2 @ [''Tachycardia'']
                     else if v < Fin 50 then r2 @ [''Bradycardia''] else r2)
               else r2);
         r4 = (if t = BLOOD_PRESSURE
               then (if v > Fin 180 then r3 @ [''Hypertensive crisis'']
                     else if v < Fin 90 then r3 @ [''Hypotension''] else r3)
               else r3)
     in r4)"

subsection \<open>\<^verbatim>\<open>_detect_single_parameter_anomaly\<close>\<close>

text \<open>The dictionaries \<^verbatim>\<open>param_mapping\<close> and \<^verbatim>\<open>type_mapping\<close>.\<close>

definition param_mapping :: "PatientBaseline \<Rightarrow> string \<rightharpoonup> pyfloat \<times> pyfloat" where
  "param_mapping baseline = map_of
    [(''heart_rate'', heart_rate_baseline baseline),
     (''blood_pressure_systolic'', blood_pressure_baseline baseline),
     (''glucose'', glucose_baseline baseline),
     (''oxygen_saturation'', oxygen_saturation_baseline baseline),
     (''temperature'', temperature_baseline baseline),
     (''respiratory_rate'', respiratory_rate_baseline baseline)]"

definition type_mapping :: "string \<rightharpoonup> AnomalyType" where
  "type_mapping = map_of
    [(''heart_rate'', HEART_RATE),
     (''blood_pressure_systolic'', BLOOD_PRESSURE),
     (''glucose'', GLUCOSE),
     (''oxygen_saturation'', OXYGEN_SATURATION),
     (''temperature'', TEMPERATURE),
     (''respiratory_rate'', RESPIRATORY_RATE)]"

text \<open>Lines 278 to 280: \<^verbatim>\<open>deviation / max_range\<close>.\<close>

definition max_range :: "pyfloat \<Rightarrow> pyfloat \<Rightarrow> pyfloat" where
  "max_range normal_min normal_max = py_max (normal_max - normal_min) (Fin 1)"

definition relative_deviation :: "pyfloat \<Rightarrow> pyfloat \<Rightarrow> pyfloat \<Rightarrow> pyfloat" where
  "relative_deviation v normal_min normal_max =
    (let deviation = py_max \<bar>v - normal_min\<bar> \<bar>v - normal_max\<bar>
     in deviation / max_range normal_min normal_max)"

text \<open>Lines 283 to 290.\<close>

definition severity_of :: "pyfloat \<Rightarrow> AnomalySeverity" where
  "severity_of rd =
    (if rd < Fin 0.1 then LOW
     else if rd < Fin 0.25 then MEDIUM
     else if rd < Fin 0.5 then HIGH
     else CRITICAL)"

definition detect_single_parameter_anomaly ::
  "string \<Rightarrow> string \<Rightarrow> pyfloat \<Rightarrow> PatientBaseline \<Rightarrow> datetime
    \<Rightarrow> AnomalyDetectionResult option" where
  "detect_single_parameter_anomaly pid param v baseline now =
    (case param_mapping baseline param of
       None \<Rightarrow> None
     | Some (normal_min, normal_max) \<Rightarrow>
         if normal_min \<le> v \<and> v \<le> normal_max then None
         else
           let rd = relative_deviation v normal_min normal_max;
               sev = severity_of rd;
               conf = py_min (Fin 0.95) (Fin 0.5 + rd);
               t = (case type_mapping param of None \<Rightarrow> MULTI_PARAMETER | Some t \<Rightarrow> t)
           in Some \<lparr>anomaly_type = t,
                    severity = sev,
                    confidence = conf,
                    val = v,
                    normal_range = (normal_min, normal_max),
                    timestamp = now,
                    description = generate_anomaly_description t v (normal_min, normal_max),
                    recommendations = generate_recommendations t sev v,
                    risk_factors = identify_risk_factors t sev v\<rparr>)"

subsection \<open>\<^verbatim>\<open>_detect_multi_parameter_anomaly\<close>\<close>

definition severity_scores :: "AnomalySeverity \<Rightarrow> nat" where
  "severity_scores sev = (case sev of LOW \<Rightarrow> 1 | MEDIUM \<Rightarrow> 2 | HIGH \<Rightarrow> 3 | CRITICAL \<Rightarrow> 4)"

text \<open>
  Line 344 is \<^verbatim>\<open>max(severities, key=lambda x: severity_scores[x.severity])\<close>, where
  \<^verbatim>\<open>severities\<close> already holds the \<^verbatim>\<open>AnomalySeverity\<close> members. A member of that
  enumeration has no attribute \<^verbatim>\<open>severity\<close>, so \<^verbatim>\<open>x.severity\<close> raises
  \<^verbatim>\<open>AttributeError\<close> for each of the four members.
\<close>

definition severity_attr :: "AnomalySeverity \<Rightarrow> error + AnomalySeverity" where
  "severity_attr x = Inl AttributeError"

definition severity_key :: "AnomalySeverity \<Rightarrow> error + nat" where
  "severity_key x = bind_err (severity_attr x) (\<lambda>s. Inr (severity_scores s))"

text \<open>
  Python's \<^verbatim>\<open>max(xs, key=f)\<close>: \<^verbatim>\<open>ValueError\<close> on an empty list, the first element of
  greatest key otherwise; a raise of \<^verbatim>\<open>f\<close> ends it.
\<close>

fun max_from :: "('a \<Rightarrow> error + nat) \<Rightarrow> 'a \<Rightarrow> nat \<Rightarrow> 'a list \<Rightarrow> error + 'a" where
  "max_from key best best_key [] = Inr best"
| "max_from key best best_key (x # xs) =
    (case key x of
       Inl e \<Rightarrow> Inl e
     | Inr k \<Rightarrow> if best_key < k then max_from key x k xs else max_from key best best_key xs)"

definition max_key :: "('a \<Rightarrow> error + nat) \<Rightarrow> 'a list \<Rightarrow> error + 'a" where
  "max_key key xs =
    (case xs of
       [] \<Rightarrow> Inl ValueError
     | x # rest \<Rightarrow> (case key x of Inl e \<Rightarrow> Inl e | Inr k \<Rightarrow> max_from key x k rest))"

text \<open>
  Line 345: \<^verbatim>\<open>sum(r.confidence for r in single_results) / len(single_results)\<close>. Python
  rounds each addition and the quotient; this is the exact mean, and no statement below
  depends on its value (line 344 raises before line 345 is reached).
\<close>

definition avg_confidence :: "AnomalyDetectionResult list \<Rightarrow> pyfloat" where
  "avg_confidence single_results =
    py_sum (map confidence single_results) / Fin (real (length single_results))"

text \<open>Lines 356 to 362: duplicates removed, the first occurrence kept.\<close>

fun unique_from :: "string list \<Rightarrow> string list \<Rightarrow> string list" where
  "unique_from seen [] = []"
| "unique_from seen (rec # recs) =
    (if rec \<in> set seen then unique_from seen recs
     else rec # unique_from (rec # seen) recs)"

definition detect_multi_parameter_anomaly ::
  "string \<Rightarrow> (string \<times> pyfloat) list \<Rightarrow> AnomalyDetectionResult list \<Rightarrow> datetime
    \<Rightarrow> error + AnomalyDetectionResult option" where
  "detect_multi_parameter_anomaly pid health_data single_results now =
    (if length single_results < 2 then Inr None
     else
       let severities = map severity single_results
       in bind_err (max_key severity_key severities) (\<lambda>max_severity.
            let param_names =
                  map (\<lambda>r. title (replace_char CHR ''_'' CHR '' '' (anomaly_type_value (anomaly_type r))))
                    single_results;
                all_recommendations = concat (map recommendations single_results)
            in Inr (Some
                 \<lparr>anomaly_type = MULTI_PARAMETER,
                  severity = max_severity,
                  confidence = avg_confidence single_results,
                  val = Fin (real (length single_results)),
                  normal_range = (Fin 0, Fin 0),
                  timestamp = now,
                  description =
                    ''Multiple parameter anomalies detected: '' @ join '', '' param_names,
                  recommendations = unique_from [] all_recommendations,
                  risk_factors = [''Multiple simultaneous anomalies'']\<rparr>)))"

subsection \<open>\<^verbatim>\<open>detect_anomalies\<close>\<close>

text \<open>The loop of lines 224 to 229: one call per item, the results kept in order.\<close>

fun single_results ::
  "string \<Rightarrow> (string \<times> pyfloat) list \<Rightarrow> PatientBaseline \<Rightarrow> datetime
    \<Rightarrow> AnomalyDetectionResult list" where
  "single_results pid [] baseline now = []"
| "single_results pid ((param, v) # items) baseline now =
    (case detect_single_parameter_anomaly pid param v baseline now of
       None \<Rightarrow> single_results pid items baseline now
     | Some r \<Rightarrow> r # single_results pid items baseline now)"

text \<open>Lines 237 to 245: append to the subject's history, keep the last 100 entries.\<close>

definition record_history ::
  "detector \<Rightarrow> string \<Rightarrow> AnomalyDetectionResult list \<Rightarrow> detector" where
  "record_history s pid results =
    (let h = (case anomaly_history s pid of None \<Rightarrow> [] | Some old \<Rightarrow> old) @ results;
         h' = (if length h > 100 then drop (length h - 100) h else h)
     in s\<lparr>anomaly_history := (anomaly_history s)(pid \<mapsto> h')\<rparr>)"

text \<open>Lines 217 to 219: \<^verbatim>\<open>update_patient_baseline\<close> is called only for a subject that has
  no baseline yet.\<close>

definition ensure_baseline ::
  "detector \<Rightarrow> string \<Rightarrow> (string \<times> pyfloat) list \<Rightarrow> datetime \<Rightarrow> (error + unit) \<times> detector" where
  "ensure_baseline s pid health_data now =
    (if baselines s pid = None
     then (case update_patient_baseline s pid health_data now of
             (Inl e, s') \<Rightarrow> (Inl e, s')
           | (Inr b, s') \<Rightarrow> (Inr (), s'))
     else (Inr (), s))"

text \<open>Lines 231 to 235.\<close>

definition with_multi ::
  "string \<Rightarrow> (string \<times> pyfloat) list \<Rightarrow> AnomalyDetectionResult list \<Rightarrow> datetime
    \<Rightarrow> error + AnomalyDetectionResult list" where
  "with_multi pid health_data results now =
    (if length results > 1
     then bind_err (detect_multi_parameter_anomaly pid health_data results now)
            (\<lambda>multi_result. case multi_result of
                None \<Rightarrow> Inr results
              | Some m \<Rightarrow> Inr (results @ [m]))
     else Inr results)"

definition detect_anomalies ::
  "detector \<Rightarrow> string \<Rightarrow> (string \<times> pyfloat) list \<Rightarrow> datetime
    \<Rightarrow> (error + AnomalyDetectionResult list) \<times> detector" where
  "detect_anomalies s pid health_data now =
    (case ensure_baseline s pid health_data now of
       (Inl e, s1) \<Rightarrow> (Inl e, s1)
     | (Inr u, s1) \<Rightarrow>
         (case baselines s1 pid of
            None \<Rightarrow> (Inl KeyError, s1)
          | Some baseline \<Rightarrow>
              (case with_multi pid health_data
                      (single_results pid health_data baseline now) now of
                 Inl e \<Rightarrow> (Inl e, s1)
               | Inr results \<Rightarrow> (Inr results, record_history s1 pid results))))"

subsection \<open>Sequences of calls\<close>

datatype call =
  Detect string "(string \<times> pyfloat) list" datetime
  | Update string "(string \<times> pyfloat) list" datetime

fun step :: "detector \<Rightarrow> call \<Rightarrow> detector" where
  "step s (Detect pid health_data now) = snd (detect_anomalies s pid health_data now)"
| "step s (Update pid health_data now) = snd (update_patient_baseline s pid health_data now)"

definition run :: "call list \<Rightarrow> detector" where
  "run calls = foldl step init calls"

subsection \<open>Predicates of the statements\<close>

text \<open>Every interval of a baseline has its minimum at or below its maximum.\<close>

definition ordered :: "PatientBaseline \<Rightarrow> bool" where
  "ordered b \<longleftrightarrow>
     fst (heart_rate_baseline b) \<le> snd (heart_rate_baseline b)
   \<and> fst (blood_pressure_baseline b) \<le> snd (blood_pressure_baseline b)
   \<and> fst (glucose_baseline b) \<le> snd (glucose_baseline b)
   \<and> fst (oxygen_saturation_baseline b) \<le> snd (oxygen_saturation_baseline b)
   \<and> fst (temperature_baseline b) \<le> snd (temperature_baseline b)
   \<and> fst (respiratory_rate_baseline b) \<le> snd (respiratory_rate_baseline b)"

text \<open>Every reading of an observation that a baseline tracks lies in that baseline's
  interval; every reading that the configuration lists lies in its normal range.\<close>

definition in_interval :: "pyfloat \<Rightarrow> (pyfloat \<times> pyfloat) option \<Rightarrow> bool" where
  "in_interval v i = (case i of None \<Rightarrow> True | Some (lo, hi) \<Rightarrow> lo \<le> v \<and> v \<le> hi)"

definition within_baseline :: "PatientBaseline \<Rightarrow> (string \<times> pyfloat) list \<Rightarrow> bool" where
  "within_baseline b health_data =
    list_all (\<lambda>(param, v). in_interval v (param_mapping b param)) health_data"

definition within_normal_ranges :: "(string \<times> pyfloat) list \<Rightarrow> bool" where
  "within_normal_ranges health_data =
    list_all (\<lambda>(param, v). in_interval v (map_of normal_ranges param)) health_data"

text \<open>A float that is a number: neither an infinity nor NaN.\<close>

fun is_finite :: "pyfloat \<Rightarrow> bool" where
  "is_finite (Fin a) = True"
| "is_finite x = False"

definition finite_interval :: "pyfloat \<times> pyfloat \<Rightarrow> bool" where
  "finite_interval i \<longleftrightarrow> is_finite (fst i) \<and> is_finite (snd i)"

text \<open>Every bound of a baseline is a number.\<close>

definition finite_bounds :: "PatientBaseline \<Rightarrow> bool" where
  "finite_bounds b \<longleftrightarrow>
     finite_interval (heart_rate_baseline b)
   \<and> finite_interval (blood_pressure_baseline b)
   \<and> finite_interval (glucose_baseline b)
   \<and> finite_interval (oxygen_saturation_baseline b)
   \<and> finite_interval (temperature_baseline b)
   \<and> finite_interval (respiratory_rate_baseline b)"

text \<open>No reading of an observation is NaN; every reading of an observation is a number.\<close>

definition readings_not_nan :: "(string \<times> pyfloat) list \<Rightarrow> bool" where
  "readings_not_nan health_data = list_all (\<lambda>(param, v). v \<noteq> NaN) health_data"

definition readings_finite :: "(string \<times> pyfloat) list \<Rightarrow> bool" where
  "readings_finite health_data = list_all (\<lambda>(param, v). is_finite v) health_data"

section \<open>Properties\<close>

subsection \<open>Float arithmetic\<close>

lemma minus_Fin [simp]: "Fin a - Fin b = Fin (a - b)"
  by (simp add: minus_pyfloat_def)

lemma Fin_zero_plus [simp]: "Fin 0 + x = x"
  by (cases x) simp_all

lemma times_Fin_one [simp]: "x * Fin 1 = x"
  by (cases x) (simp_all add: inf_of_sign_def)

lemma less_eq_refl_iff: "x \<le> x \<longleftrightarrow> x \<noteq> NaN" for x :: pyfloat
  by (cases x) simp_all

lemma less_eq_not_NaN: "x \<le> y \<Longrightarrow> x \<noteq> NaN \<and> y \<noteq> NaN" for x y :: pyfloat
  by (cases x; cases y) simp_all

lemma is_finite_iff: "is_finite x \<longleftrightarrow> (\<exists>a. x = Fin a)"
  by (cases x) simp_all

subsection \<open>Baselines\<close>

lemma seed_baseline_eq:
  "seed_baseline pid now =
    Inr \<lparr>patient_id = pid, heart_rate_baseline = (Fin 60, Fin 100),
         blood_pressure_baseline = (Fin 90, Fin 140), glucose_baseline = (Fin 70, Fin 140),
         oxygen_saturation_baseline = (Fin 95, Fin 100),
         temperature_baseline = (Fin 36.1, Fin 37.2),
         respiratory_rate_baseline = (Fin 12, Fin 20), last_updated = now, sample_count = 1\<rparr>"
  by (simp add: seed_baseline_def config_range_def normal_ranges_def bind_err_def)

lemma heart_rate_update_intervals:
  "heart_rate_baseline (update_intervals b obs wo wn) =
    (case map_of obs ''heart_rate'' of None \<Rightarrow> heart_rate_baseline b
     | Some x \<Rightarrow> weighted (heart_rate_baseline b) x wo wn)"
  by (simp add: update_intervals_def Let_def split: option.split)

lemma blood_pressure_update_intervals:
  "blood_pressure_baseline (update_intervals b obs wo wn) =
    (case map_of obs ''blood_pressure_systolic'' of None \<Rightarrow> blood_pressure_baseline b
     | Some x \<Rightarrow> weighted (blood_pressure_baseline b) x wo wn)"
  by (simp add: update_intervals_def Let_def split: option.split)

lemma glucose_update_intervals:
  "glucose_baseline (update_intervals b obs wo wn) =
    (case map_of obs ''glucose'' of None \<Rightarrow> glucose_baseline b
     | Some x \<Rightarrow> weighted (glucose_baseline b) x wo wn)"
  by (simp add: update_intervals_def Let_def split: option.split)

lemma oxygen_saturation_update_intervals:
  "oxygen_saturation_baseline (update_intervals b obs wo wn) =
    (case map_of obs ''oxygen_saturation'' of None \<Rightarrow> oxygen_saturation_baseline b
     | Some x \<Rightarrow> weighted (oxygen_saturation_baseline b) x wo wn)"
  by (simp add: update_intervals_def Let_def split: option.split)

lemma temperature_update_intervals:
  "temperature_baseline (update_intervals b obs wo wn) =
    (case map_of obs ''temperature'' of None \<Rightarrow> temperature_baseline b
     | Some x \<Rightarrow> weighted (temperature_baseline b) x wo wn)"
  by (simp add: update_intervals_def Let_def split: option.split)

lemma respiratory_rate_update_intervals:
  "respiratory_rate_baseline (update_intervals b obs wo wn) =
    (case map_of obs ''respiratory_rate'' of None \<Rightarrow> respiratory_rate_baseline b
     | Some x \<Rightarrow> weighted (respiratory_rate_baseline b) x wo wn)"
  by (simp add: update_intervals_def Let_def split: option.split)

lemmas update_intervals_fields =
  heart_rate_update_intervals blood_pressure_update_intervals glucose_update_intervals
  oxygen_saturation_update_intervals temperature_update_intervals
  respiratory_rate_update_intervals

text \<open>A parameter name is one of the six tracked ones, or none of them.\<close>

lemma param_cases:
  assumes "param = ''heart_rate'' \<Longrightarrow> P"
    and "param = ''blood_pressure_systolic'' \<Longrightarrow> P"
    and "param = ''glucose'' \<Longrightarrow> P"
    and "param = ''oxygen_saturation'' \<Longrightarrow> P"
    and "param = ''temperature'' \<Longrightarrow> P"
    and "param = ''respiratory_rate'' \<Longrightarrow> P"
    and "param_mapping b param = None \<Longrightarrow> P"
  shows P
proof -
  have "param \<noteq> ''heart_rate'' \<Longrightarrow> param \<noteq> ''blood_pressure_systolic'' \<Longrightarrow>
      param \<noteq> ''glucose'' \<Longrightarrow> param \<noteq> ''oxygen_saturation'' \<Longrightarrow> param \<noteq> ''temperature'' \<Longrightarrow>
      param \<noteq> ''respiratory_rate'' \<Longrightarrow> param_mapping b param = None"
    by (simp add: param_mapping_def)
  with assms(7) have "param = ''heart_rate'' \<or> param = ''blood_pressure_systolic''
      \<or> param = ''glucose'' \<or> param = ''oxygen_saturation'' \<or> param = ''temperature''
      \<or> param = ''respiratory_rate'' \<or> P"
    by argo
  with assms(1-6) show P by argo
qed

text \<open>What an update does to the interval of any one parameter.\<close>

lemma param_mapping_update_intervals:
  "param_mapping (update_intervals b obs wo wn) param =
    map_option (\<lambda>i. case map_of obs param of None \<Rightarrow> i | Some x \<Rightarrow> weighted i x wo wn)
      (param_mapping b param)"
proof (cases rule: param_cases [of param _ "update_intervals b obs wo wn"])
  case 1
  then show ?thesis
    by (simp add: param_mapping_def heart_rate_update_intervals split: option.split)
next
  case 2
  then show ?thesis
    by (simp add: param_mapping_def blood_pressure_update_intervals split: option.split)
next
  case 3
  then show ?thesis
    by (simp add: param_mapping_def glucose_update_intervals split: option.split)
next
  case 4
  then show ?thesis
    by (simp add: param_mapping_def oxygen_saturation_update_intervals split: option.split)
next
  case 5
  then show ?thesis
    by (simp add: param_mapping_def temperature_update_intervals split: option.split)
next
  case 6
  then show ?thesis
    by (simp add: param_mapping_def respiratory_rate_update_intervals split: option.split)
next
  case 7
  have "dom (param_mapping (update_intervals b obs wo wn)) = dom (param_mapping b)"
    by (simp add: param_mapping_def)
  with 7 have "param_mapping b param = None"
    by (metis domIff)
  with 7 show ?thesis by simp
qed

lemma param_mapping_more_update:
  "param_mapping (b\<lparr>last_updated := t, sample_count := n\<rparr>) = param_mapping b"
  by (simp add: param_mapping_def)

text \<open>The two paths of \<^verbatim>\<open>update_patient_baseline\<close>.\<close>

lemma update_patient_baseline_existing:
  assumes "baselines s pid = Some b"
  shows "update_patient_baseline s pid obs now =
    (if sample_count b + 1 = 0 then (Inl ZeroDivisionError, s)
     else (let n = sample_count b + 1;
               b' = (update_intervals b obs (Fin (1 - 1 / real_of_int n)) (Fin (1 / real_of_int n)))
                      \<lparr>last_updated := now, sample_count := n\<rparr>
           in (Inr b', s\<lparr>baselines := (baselines s)(pid \<mapsto> b')\<rparr>)))"
  using assms by (simp add: update_patient_baseline_def Let_def)

lemma update_patient_baseline_new:
  assumes "baselines s pid = None" and "seed_baseline pid now = Inr b0"
  shows "update_patient_baseline s pid obs now =
    (let b' = (update_intervals b0 obs (Fin 0) (Fin 1))\<lparr>last_updated := now, sample_count := 1\<rparr>
     in (Inr b', s\<lparr>baselines := (baselines s)(pid \<mapsto> b')\<rparr>))"
  using assms by (simp add: update_patient_baseline_def Let_def)

text \<open>
  The baseline an update starts from is the stored one or, for a new subject, the seeded
  one. What the update leaves in the store is that baseline itself (the call raised
  \<^verbatim>\<open>ZeroDivisionError\<close>) or its weighted update for some count \<open>n\<close> other than 0.
\<close>

lemma update_patient_baseline_stored:
  assumes "(case baselines s pid of Some b \<Rightarrow> Inr b | None \<Rightarrow> seed_baseline pid now) = Inr before"
  shows "baselines (snd (update_patient_baseline s pid obs now)) pid = Some before
    \<or> (\<exists>n. n \<noteq> 0 \<and> sample_count before \<le> n
          \<and> baselines (snd (update_patient_baseline s pid obs now)) pid =
              Some ((update_intervals before obs
                       (Fin (1 - 1 / real_of_int n)) (Fin (1 / real_of_int n)))
                     \<lparr>last_updated := now, sample_count := n\<rparr>))"
proof (cases "baselines s pid")
  case None
  with assms have seed: "seed_baseline pid now = Inr before" by simp
  then have "sample_count before = 1"
    by (auto simp: seed_baseline_eq)
  moreover have "baselines (snd (update_patient_baseline s pid obs now)) pid =
      Some ((update_intervals before obs
               (Fin (1 - 1 / real_of_int 1)) (Fin (1 / real_of_int 1)))
             \<lparr>last_updated := now, sample_count := 1\<rparr>)"
    by (simp add: update_patient_baseline_new [OF None seed] Let_def)
  ultimately have "(1::int) \<noteq> 0 \<and> sample_count before \<le> 1
      \<and> baselines (snd (update_patient_baseline s pid obs now)) pid =
          Some ((update_intervals before obs
                   (Fin (1 - 1 / real_of_int 1)) (Fin (1 / real_of_int 1)))
                 \<lparr>last_updated := now, sample_count := 1\<rparr>)"
    by simp
  then show ?thesis by (intro disjI2 exI)
next
  case (Some b)
  with assms have eq: "before = b" by simp
  show ?thesis
  proof (cases "sample_count b + 1 = 0")
    case True
    then have "baselines (snd (update_patient_baseline s pid obs now)) pid = Some b"
      by (simp add: update_patient_baseline_existing [OF Some] Some)
    then show ?thesis using eq by simp
  next
    case False
    have "baselines (snd (update_patient_baseline s pid obs now)) pid =
        Some ((update_intervals b obs
          (Fin (1 - 1 / real_of_int (sample_count b + 1)))
          (Fin (1 / real_of_int (sample_count b + 1))))
          \<lparr>last_updated := now, sample_count := sample_count b + 1\<rparr>)"
      using False by (simp add: update_patient_baseline_existing [OF Some] Let_def)
    with False eq have "sample_count b + 1 \<noteq> 0 \<and> sample_count before \<le> sample_count b + 1
      \<and> baselines (snd (update_patient_baseline s pid obs now)) pid =
          Some ((update_intervals before obs
                  (Fin (1 - 1 / real_of_int (sample_count b + 1)))
                  (Fin (1 / real_of_int (sample_count b + 1))))
                 \<lparr>last_updated := now, sample_count := sample_count b + 1\<rparr>)"
      by simp
    then show ?thesis by (intro disjI2 exI)
  qed
qed

text \<open>
  Claim C8. \<^verbatim>\<open>update_patient_baseline\<close> changes only the intervals of the parameters
  that the observation holds: for a parameter that is not a key of the observation, the
  interval stored after the call is the interval the call started from (the stored one,
  or the seeded one for a subject without a baseline).
\<close>

theorem C8_absent_parameter_keeps_bounds:
  assumes "(case baselines s pid of Some b \<Rightarrow> Inr b | None \<Rightarrow> seed_baseline pid now) = Inr before"
    and "map_of health_data param = None"
  shows "\<exists>after. baselines (snd (update_patient_baseline s pid health_data now)) pid = Some after
           \<and> param_mapping after param = param_mapping before param"
proof -
  consider "baselines (snd (update_patient_baseline s pid health_data now)) pid = Some before"
    | n where "n \<noteq> 0" "sample_count before \<le> n"
      "baselines (snd (update_patient_baseline s pid health_data now)) pid =
         Some ((update_intervals before health_data
                  (Fin (1 - 1 / real_of_int n)) (Fin (1 / real_of_int n)))
                \<lparr>last_updated := now, sample_count := n\<rparr>)"
    using update_patient_baseline_stored [OF assms(1)] by blast
  then show ?thesis
  proof cases
    case 1
    then show ?thesis by simp
  next
    case (2 n)
    have "param_mapping ((update_intervals before health_data (Fin (1 - 1 / real_of_int n))
        (Fin (1 / real_of_int n)))\<lparr>last_updated := now, sample_count := n\<rparr>) param
        = param_mapping before param"
      by (simp add: param_mapping_more_update param_mapping_update_intervals assms(2)
          option.map_ident)
    with 2(3) show ?thesis by simp
  qed
qed

theorem C8_absent_parameter_keeps_bounds_witness:
  "(case baselines init ''p1'' of Some b \<Rightarrow> Inr b | None \<Rightarrow> seed_baseline ''p1'' 7) =
      Inr \<lparr>patient_id = ''p1'', heart_rate_baseline = (Fin 60, Fin 100),
         blood_pressure_baseline = (Fin 90, Fin 140), glucose_baseline = (Fin 70, Fin 140),
         oxygen_saturation_baseline = (Fin 95, Fin 100),
         temperature_baseline = (Fin 36.1, Fin 37.2),
         respiratory_rate_baseline = (Fin 12, Fin 20), last_updated = 7, sample_count = 1\<rparr>
   \<and> map_of [(''heart_rate'', Fin 80)] ''glucose'' = None
   \<and> (\<exists>after. baselines (snd (update_patient_baseline init ''p1'' [(''heart_rate'', Fin 80)] 7)) ''p1''
          = Some after \<and> param_mapping after ''glucose'' = Some (Fin 70, Fin 140))"
proof -
  let ?b0 = "\<lparr>patient_id = ''p1'', heart_rate_baseline = (Fin 60, Fin 100),
         blood_pressure_baseline = (Fin 90, Fin 140), glucose_baseline = (Fin 70, Fin 140),
         oxygen_saturation_baseline = (Fin 95, Fin 100),
         temperature_baseline = (Fin 36.1, Fin 37.2),
         respiratory_rate_baseline = (Fin 12, Fin 20), last_updated = 7, sample_count = 1\<rparr>"
  have h1: "(case baselines init ''p1'' of Some b \<Rightarrow> Inr b | None \<Rightarrow> seed_baseline ''p1'' 7) = Inr ?b0"
    by (simp add: init_def seed_baseline_eq)
  have h2: "map_of [(''heart_rate'', Fin 80)] ''glucose'' = None"
    by simp
  have "param_mapping ?b0 ''glucose'' = Some (Fin 70, Fin 140)"
    by (simp add: param_mapping_def)
  with C8_absent_parameter_keeps_bounds [OF h1 h2] h1 h2 show ?thesis
    by simp
qed

text \<open>
  Claim C6 fails as stated: the readings are not checked, and a NaN reading turns an
  interval into (NaN, NaN), whose minimum is not at or below its maximum. So does the
  reading \<^verbatim>\<open>-inf\<close> on an interval that the reading \<^verbatim>\<open>inf\<close> has made (inf, inf).
\<close>

theorem C6_counterexample:
  "baselines (run [Update ''p1'' [(''heart_rate'', Fin 80)] 0]) ''p1'' =
      Some \<lparr>patient_id = ''p1'', heart_rate_baseline = (Fin 80, Fin 80),
         blood_pressure_baseline = (Fin 90, Fin 140), glucose_baseline = (Fin 70, Fin 140),
         oxygen_saturation_baseline = (Fin 95, Fin 100),
         temperature_baseline = (Fin 36.1, Fin 37.2),
         respiratory_rate_baseline = (Fin 12, Fin 20), last_updated = 0, sample_count = 1\<rparr>
   \<and> ordered \<lparr>patient_id = ''p1'', heart_rate_baseline = (Fin 80, Fin 80),
         blood_pressure_baseline = (Fin 90, Fin 140), glucose_baseline = (Fin 70, Fin 140),
         oxygen_saturation_baseline = (Fin 95, Fin 100),
         temperature_baseline = (Fin 36.1, Fin 37.2),
         respiratory_rate_baseline = (Fin 12, Fin 20), last_updated = 0, sample_count = 1\<rparr>
   \<and> baselines (snd (update_patient_baseline (run [Update ''p1'' [(''heart_rate'', Fin 80)] 0])
          ''p1'' [(''heart_rate'', NaN)] 1)) ''p1'' =
      Some \<lparr>patient_id = ''p1'', heart_rate_baseline = (NaN, NaN),
         blood_pressure_baseline = (Fin 90, Fin 140), glucose_baseline = (Fin 70, Fin 140),
         oxygen_saturation_baseline = (Fin 95, Fin 100),
         temperature_baseline = (Fin 36.1, Fin 37.2),
         respiratory_rate_baseline = (Fin 12, Fin 20), last_updated = 1, sample_count = 2\<rparr>
   \<and> \<not> ordered \<lparr>patient_id = ''p1'', heart_rate_baseline = (NaN, NaN),
         blood_pressure_baseline = (Fin 90, Fin 140), glucose_baseline = (Fin 70, Fin 140),
         oxygen_saturation_baseline = (Fin 95, Fin 100),
         temperature_baseline = (Fin 36.1, Fin 37.2),
         respiratory_rate_baseline = (Fin 12, Fin 20), last_updated = 1, sample_count = 2\<rparr>
   \<and> baselines (run [Update ''p1'' [(''heart_rate'', PInf)] 0]) ''p1'' =
      Some \<lparr>patient_id = ''p1'', heart_rate_baseline = (PInf, PInf),
         blood_pressure_baseline = (Fin 90, Fin 140), glucose_baseline = (Fin 70, Fin 140),
         oxygen_saturation_baseline = (Fin 95, Fin 100),
         temperature_baseline = (Fin 36.1, Fin 37.2),
         respiratory_rate_baseline = (Fin 12, Fin 20), last_updated = 0, sample_count = 1\<rparr>
   \<and> ordered \<lparr>patient_id = ''p1'', heart_rate_baseline = (PInf, PInf),
         blood_pressure_baseline = (Fin 90, Fin 140), glucose_baseline = (Fin 70, Fin 140),
         oxygen_saturation_baseline = (Fin 95, Fin 100),
         temperature_baseline = (Fin 36.1, Fin 37.2),
         respiratory_rate_baseline = (Fin 12, Fin 20), last_updated = 0, sample_count = 1\<rparr>
   \<and> map_option heart_rate_baseline
        (baselines (snd (update_patient_baseline (run [Update ''p1'' [(''heart_rate'', PInf)] 0])
          ''p1'' [(''heart_rate'', NInf)] 1)) ''p1'') = Some (NaN, NaN)"
  by code_simp

lemma weight_old_nonneg:
  assumes "n \<noteq> (0::int)"
  shows "0 \<le> 1 - 1 / real_of_int n"
proof (cases "0 < n")
  case True
  then have "1 \<le> real_of_int n" by simp
  then have "1 / real_of_int n \<le> 1" by simp
  then show ?thesis by simp
next
  case False
  with assms have "real_of_int n < 0" by simp
  then have "1 / real_of_int n < 0" by simp
  then show ?thesis by simp
qed

text \<open>
  One interval with finite bounds, moved towards a reading that is not NaN with a weight
  of the old bounds that is not negative and a weight of the reading that is not 0.
\<close>

lemma weighted_ordered:
  assumes "finite_interval i" and "fst i \<le> snd i" and "x \<noteq> NaN" and "0 \<le> wo" and "wn \<noteq> 0"
  shows "fst (weighted i x (Fin wo) (Fin wn)) \<le> snd (weighted i x (Fin wo) (Fin wn))"
proof -
  from assms(1) obtain lo hi where i: "i = (Fin lo, Fin hi)"
    by (cases i) (auto simp: finite_interval_def is_finite_iff)
  with assms(2) have "lo \<le> hi" by simp
  then have le: "lo * wo \<le> hi * wo"
    using assms(4) by (rule mult_right_mono)
  show ?thesis
  proof (cases x)
    case (Fin a)
    with le show ?thesis by (simp add: weighted_def i)
  next
    case PInf
    with assms(5) show ?thesis by (simp add: weighted_def i inf_of_sign_def)
  next
    case NInf
    with assms(5) show ?thesis by (simp add: weighted_def i inf_of_sign_def)
  next
    case NaN
    with assms(3) show ?thesis by simp
  qed
qed

lemma weighted_finite:
  assumes "finite_interval i" and "is_finite x"
  shows "finite_interval (weighted i x (Fin wo) (Fin wn))"
  using assms by (cases i) (auto simp: finite_interval_def is_finite_iff weighted_def)

lemma reading_not_nan:
  assumes "readings_not_nan obs" and "map_of obs param = Some x"
  shows "x \<noteq> NaN"
proof -
  from assms(2) have "(param, x) \<in> set obs" by (rule map_of_SomeD)
  with assms(1) show ?thesis
    by (auto simp: readings_not_nan_def list_all_iff)
qed

lemma reading_finite:
  assumes "readings_finite obs" and "map_of obs param = Some x"
  shows "is_finite x"
proof -
  from assms(2) have "(param, x) \<in> set obs" by (rule map_of_SomeD)
  with assms(1) show ?thesis
    by (auto simp: readings_finite_def list_all_iff)
qed

lemma ordered_update_intervals:
  assumes "ordered b" and "finite_bounds b" and "readings_not_nan obs"
    and "0 \<le> wo" and "wn \<noteq> 0"
  shows "ordered (update_intervals b obs (Fin wo) (Fin wn))"
  using assms(1,2) reading_not_nan [OF assms(3)] assms(4,5)
  by (simp add: ordered_def finite_bounds_def update_intervals_fields weighted_ordered
      split: option.split)

lemma finite_bounds_update_intervals:
  assumes "finite_bounds b" and "readings_finite obs"
  shows "finite_bounds (update_intervals b obs (Fin wo) (Fin wn))"
  using assms(1) reading_finite [OF assms(2)]
  by (simp add: finite_bounds_def update_intervals_fields weighted_finite split: option.split)

lemma ordered_more_update:
  "ordered (b\<lparr>last_updated := t, sample_count := n\<rparr>) = ordered b"
  by (simp add: ordered_def)

lemma finite_bounds_more_update:
  "finite_bounds (b\<lparr>last_updated := t, sample_count := n\<rparr>) = finite_bounds b"
  by (simp add: finite_bounds_def)

text \<open>
  Claim C6, as amended. If the baseline an update starts from has finite bounds with
  every minimum at or below its maximum, and no reading of the observation is NaN, then
  every interval of the baseline stored after the call has its minimum at or below its
  maximum, and the stored sample count is not below the one before; if moreover every
  reading is finite, the stored bounds are finite again.
\<close>

theorem C6_update_keeps_intervals_ordered:
  assumes "(case baselines s pid of Some b \<Rightarrow> Inr b | None \<Rightarrow> seed_baseline pid now) = Inr before"
    and "ordered before" and "finite_bounds before" and "readings_not_nan health_data"
  shows "\<exists>after. baselines (snd (update_patient_baseline s pid health_data now)) pid = Some after
           \<and> ordered after \<and> sample_count before \<le> sample_count after
           \<and> (readings_finite health_data \<longrightarrow> finite_bounds after)"
proof -
  consider "baselines (snd (update_patient_baseline s pid health_data now)) pid = Some before"
    | n where "n \<noteq> 0" "sample_count before \<le> n"
      "baselines (snd (update_patient_baseline s pid health_data now)) pid =
         Some ((update_intervals before health_data
                  (Fin (1 - 1 / real_of_int n)) (Fin (1 / real_of_int n)))
                \<lparr>last_updated := now, sample_count := n\<rparr>)"
    using update_patient_baseline_stored [OF assms(1)] by blast
  then show ?thesis
  proof cases
    case 1
    then show ?thesis using assms(2,3) by simp
  next
    case (2 n)
    let ?after = "(update_intervals before health_data
        (Fin (1 - 1 / real_of_int n)) (Fin (1 / real_of_int n)))
        \<lparr>last_updated := now, sample_count := n\<rparr>"
    from 2(1) have wn: "1 / real_of_int n \<noteq> 0" by simp
    have "ordered ?after"
      unfolding ordered_more_update
      by (rule ordered_update_intervals [OF assms(2,3,4) weight_old_nonneg [OF 2(1)] wn])
    moreover have "readings_finite health_data \<longrightarrow> finite_bounds ?after"
      unfolding finite_bounds_more_update
      using finite_bounds_update_intervals [OF assms(3)] by blast
    moreover have "sample_count before \<le> sample_count ?after"
      using 2(2) by simp
    ultimately show ?thesis using 2(3) by blast
  qed
qed

theorem C6_update_keeps_intervals_ordered_witness:
  "(case baselines (run [Update ''p1'' [(''heart_rate'', Fin 80)] 0]) ''p1'' of
      Some b \<Rightarrow> Inr b | None \<Rightarrow> seed_baseline ''p1'' 1) =
      Inr \<lparr>patient_id = ''p1'', heart_rate_baseline = (Fin 80, Fin 80),
         blood_pressure_baseline = (Fin 90, Fin 140), glucose_baseline = (Fin 70, Fin 140),
         oxygen_saturation_baseline = (Fin 95, Fin 100),
         temperature_baseline = (Fin 36.1, Fin 37.2),
         respiratory_rate_baseline = (Fin 12, Fin 20), last_updated = 0, sample_count = 1\<rparr>
   \<and> ordered \<lparr>patient_id = ''p1'', heart_rate_baseline = (Fin 80, Fin 80),
         blood_pressure_baseline = (Fin 90, Fin 140), glucose_baseline = (Fin 70, Fin 140),
         oxygen_saturation_baseline = (Fin 95, Fin 100),
         temperature_baseline = (Fin 36.1, Fin 37.2),
         respiratory_rate_baseline = (Fin 12, Fin 20), last_updated = 0, sample_count = 1\<rparr>
   \<and> finite_bounds \<lparr>patient_id = ''p1'', heart_rate_baseline = (Fin 80, Fin 80),
         blood_pressure_baseline = (Fin 90, Fin 140), glucose_baseline = (Fin 70, Fin 140),
         oxygen_saturation_baseline = (Fin 95, Fin 100),
         temperature_baseline = (Fin 36.1, Fin 37.2),
         respiratory_rate_baseline = (Fin 12, Fin 20), last_updated = 0, sample_count = 1\<rparr>
   \<and> readings_not_nan [(''heart_rate'', Fin 90), (''glucose'', PInf)]
   \<and> readings_finite [(''heart_rate'', Fin 90)]
   \<and> (\<exists>after. baselines (snd (update_patient_baseline
          (run [Update ''p1'' [(''heart_rate'', Fin 80)] 0]) ''p1''
          [(''heart_rate'', Fin 90), (''glucose'', PInf)] 1)) ''p1'' = Some after
        \<and> ordered after \<and> 1 \<le> sample_count after)
   \<and> (\<exists>after. baselines (snd (update_patient_baseline
          (run [Update ''p1'' [(''heart_rate'', Fin 80)] 0]) ''p1''
          [(''heart_rate'', Fin 90)] 1)) ''p1'' = Some after
        \<and> ordered after \<and> 1 \<le> sample_count after \<and> finite_bounds after)"
proof -
  let ?s = "run [Update ''p1'' [(''heart_rate'', Fin 80)] 0]"
  let ?b = "\<lparr>patient_id = ''p1'', heart_rate_baseline = (Fin 80, Fin 80),
         blood_pressure_baseline = (Fin 90, Fin 140), glucose_baseline = (Fin 70, Fin 140),
         oxygen_saturation_baseline = (Fin 95, Fin 100),
         temperature_baseline = (Fin 36.1, Fin 37.2),
         respiratory_rate_baseline = (Fin 12, Fin 20), last_updated = 0, sample_count = 1\<rparr>"
  have st: "baselines ?s ''p1'' = Some ?b" by code_simp
  then have h1: "(case baselines ?s ''p1'' of Some b \<Rightarrow> Inr b | None \<Rightarrow> seed_baseline ''p1'' 1)
      = Inr ?b"
    by simp
  have h2: "ordered ?b" by (simp add: ordered_def)
  have h3: "finite_bounds ?b" by (simp add: finite_bounds_def finite_interval_def)
  have h4: "readings_not_nan [(''heart_rate'', Fin 90), (''glucose'', PInf)]"
    by (simp add: readings_not_nan_def)
  have h4': "readings_not_nan [(''heart_rate'', Fin 90)]"
    by (simp add: readings_not_nan_def)
  have h5: "readings_finite [(''heart_rate'', Fin 90)]"
    by (simp add: readings_finite_def)
  from C6_update_keeps_intervals_ordered [OF h1 h2 h3 h4]
  have c1: "\<exists>after. baselines (snd (update_patient_baseline ?s ''p1''
          [(''heart_rate'', Fin 90), (''glucose'', PInf)] 1)) ''p1'' = Some after
        \<and> ordered after \<and> 1 \<le> sample_count after"
    by auto
  from C6_update_keeps_intervals_ordered [OF h1 h2 h3 h4'] h5
  have c2: "\<exists>after. baselines (snd (update_patient_baseline ?s ''p1''
          [(''heart_rate'', Fin 90)] 1)) ''p1'' = Some after
        \<and> ordered after \<and> 1 \<le> sample_count after \<and> finite_bounds after"
    by auto
  from h1 h2 h3 h4 h5 c1 c2 show ?thesis
    by (intro conjI)
qed

subsection \<open>Detection\<close>

lemma detect_single_None_iff:
  "detect_single_parameter_anomaly pid param v b now = None
    \<longleftrightarrow> in_interval v (param_mapping b param)"
  by (simp add: detect_single_parameter_anomaly_def in_interval_def Let_def
      split: option.split prod.split)

lemma single_results_empty_iff:
  "single_results pid obs b now = [] \<longleftrightarrow> within_baseline b obs"
proof (induction obs)
  case Nil
  show ?case by (simp add: within_baseline_def)
next
  case (Cons item obs)
  obtain param v where item: "item = (param, v)" by (cases item)
  show ?case
  proof (cases "detect_single_parameter_anomaly pid param v b now")
    case None
    then have "in_interval v (param_mapping b param)"
      by (simp add: detect_single_None_iff)
    with None Cons.IH show ?thesis
      by (simp add: item within_baseline_def)
  next
    case (Some r)
    then have "\<not> in_interval v (param_mapping b param)"
      using detect_single_None_iff [of pid param v b now] by simp
    with Some show ?thesis
      by (simp add: item within_baseline_def)
  qed
qed

text \<open>The key function of line 344 raises on every member, so \<open>max\<close> raises on every
  list that is not empty.\<close>

lemma max_key_severity_key:
  "max_key severity_key sevs = (if sevs = [] then Inl ValueError else Inl AttributeError)"
  by (cases sevs) (simp_all add: max_key_def severity_key_def severity_attr_def bind_err_def)

lemma detect_multi_parameter_anomaly_eq:
  "detect_multi_parameter_anomaly pid obs rs now =
    (if length rs < 2 then Inr None else Inl AttributeError)"
  by (auto simp: detect_multi_parameter_anomaly_def max_key_severity_key bind_err_def Let_def)

lemma with_multi_eq:
  "with_multi pid obs rs now = (if 1 < length rs then Inl AttributeError else Inr rs)"
  by (simp add: with_multi_def detect_multi_parameter_anomaly_eq bind_err_def)

lemma ensure_baseline_existing:
  "baselines s pid = Some b \<Longrightarrow> ensure_baseline s pid obs now = (Inr (), s)"
  by (simp add: ensure_baseline_def)

lemma ensure_baseline_new:
  assumes "baselines s pid = None"
  shows "ensure_baseline s pid obs now =
    (Inr (), snd (update_patient_baseline s pid obs now))"
  using assms
  by (simp add: ensure_baseline_def update_patient_baseline_new [OF assms seed_baseline_eq] Let_def)

lemma detect_anomalies_existing:
  assumes "baselines s pid = Some b"
  shows "detect_anomalies s pid obs now =
    (if 1 < length (single_results pid obs b now) then (Inl AttributeError, s)
     else (Inr (single_results pid obs b now),
           record_history s pid (single_results pid obs b now)))"
  using assms
  by (simp add: detect_anomalies_def ensure_baseline_existing [OF assms] with_multi_eq)

text \<open>
  A new subject: the seeded intervals are finite, so the weights 0 and 1 put both bounds
  of a tracked parameter on its reading, and a reading within its seeded normal range is
  then within its interval.
\<close>

lemma weighted_new_sample: "finite_interval i \<Longrightarrow> weighted i x (Fin 0) (Fin 1) = (x, x)"
  by (cases i) (auto simp: weighted_def finite_interval_def is_finite_iff)

lemma tracked_has_normal_range:
  assumes "param_mapping b param \<noteq> None"
  shows "map_of normal_ranges param \<noteq> None"
proof (cases rule: param_cases [of param _ b])
  case 7
  with assms show ?thesis by simp
qed (simp_all add: normal_ranges_def)

lemma within_collapsed_baseline:
  assumes "distinct (map fst obs)" and "within_normal_ranges obs" and "finite_bounds b"
  shows "within_baseline (update_intervals b obs (Fin 0) (Fin 1)) obs"
proof -
  have "in_interval v (param_mapping (update_intervals b obs (Fin 0) (Fin 1)) param)"
    if "(param, v) \<in> set obs" for param v
  proof (cases "param_mapping b param")
    case None
    then show ?thesis
      by (simp add: param_mapping_update_intervals in_interval_def)
  next
    case (Some i)
    from assms(1) that have m: "map_of obs param = Some v" by simp
    from Some obtain lo hi where "map_of normal_ranges param = Some (lo, hi)"
      using tracked_has_normal_range [of b param] by auto
    moreover from assms(2) that have "in_interval v (map_of normal_ranges param)"
      by (auto simp: within_normal_ranges_def list_all_iff)
    ultimately have "v \<le> hi"
      by (simp add: in_interval_def)
    then have "v \<noteq> NaN"
      using less_eq_not_NaN by blast
    then have vv: "v \<le> v" by (simp add: less_eq_refl_iff)
    have "finite_interval i"
      using Some assms(3)
      by (cases rule: param_cases [of param _ b])
        (auto simp: param_mapping_def finite_bounds_def)
    then show ?thesis
      using vv by (simp add: param_mapping_update_intervals Some m in_interval_def
          weighted_new_sample)
  qed
  then show ?thesis
    by (auto simp: within_baseline_def list_all_iff)
qed

lemma within_baseline_more_update:
  "within_baseline (b\<lparr>last_updated := t, sample_count := n\<rparr>) obs = within_baseline b obs"
  by (simp add: within_baseline_def param_mapping_more_update)

lemma detect_anomalies_new:
  assumes "baselines s pid = None" and "distinct (map fst obs)" and "within_normal_ranges obs"
  shows "detect_anomalies s pid obs now =
    (Inr [], record_history (snd (update_patient_baseline s pid obs now)) pid [])"
proof -
  let ?seed = "\<lparr>patient_id = pid, heart_rate_baseline = (Fin 60, Fin 100),
         blood_pressure_baseline = (Fin 90, Fin 140), glucose_baseline = (Fin 70, Fin 140),
         oxygen_saturation_baseline = (Fin 95, Fin 100),
         temperature_baseline = (Fin 36.1, Fin 37.2),
         respiratory_rate_baseline = (Fin 12, Fin 20), last_updated = now, sample_count = 1\<rparr>"
  let ?new = "(update_intervals ?seed obs (Fin 0) (Fin 1))\<lparr>last_updated := now, sample_count := 1\<rparr>"
  have stored: "baselines (snd (update_patient_baseline s pid obs now)) pid = Some ?new"
    by (simp add: update_patient_baseline_new [OF assms(1) seed_baseline_eq] Let_def)
  have fb: "finite_bounds ?seed"
    by (simp add: finite_bounds_def finite_interval_def)
  have "within_baseline ?new obs"
    by (simp only: within_baseline_more_update within_collapsed_baseline [OF assms(2,3) fb])
  then have "single_results pid obs ?new now = []"
    by (simp add: single_results_empty_iff)
  then show ?thesis
    by (simp add: detect_anomalies_def ensure_baseline_new [OF assms(1)] stored with_multi_eq)
qed

subsection \<open>Sequences of calls\<close>

lemma run_Nil: "run [] = init"
  by (simp add: run_def)

lemma run_snoc: "run (calls @ [c]) = step (run calls) c"
  by (simp add: run_def)

subsection \<open>Results of a detection\<close>

text \<open>
  Claim C1 fails as stated: the detector compares a reading with the subject's own
  baseline, not with the seeded normal range. After a first observation without heart
  rate and a baseline update with heart rate 80, the heart-rate interval of p1 is
  (70, 90), and the reading 95, within the normal range (60, 100), is reported.
\<close>

theorem C1_counterexample:
  "distinct (map fst [(''heart_rate'', Fin 95)])
   \<and> within_normal_ranges [(''heart_rate'', Fin 95)]
   \<and> fst (detect_anomalies
        (run [Detect ''p1'' [(''glucose'', Fin 100)] 0, Update ''p1'' [(''heart_rate'', Fin 80)] 1])
        ''p1'' [(''heart_rate'', Fin 95)] 2)
      = Inr [\<lparr>anomaly_type = HEART_RATE, severity = CRITICAL, confidence = Fin 0.95,
         val = Fin 95, normal_range = (Fin 70, Fin 90), timestamp = 2,
         description = ''Heart rate of 95 bpm is outside normal range (70-90 bpm)'',
         recommendations =
           [''Seek immediate medical attention'', ''Monitor heart rate closely'',
            ''Rest and avoid strenuous activity'',
            ''Contact healthcare provider if symptoms persist'',
            ''Prepare emergency contact information''],
         risk_factors = [''High severity anomaly'']\<rparr>]"
  by code_simp

text \<open>
  Claim C1, as amended. \<^verbatim>\<open>detect_anomalies\<close> returns the empty list when the subject has
  a stored baseline and every tracked reading lies within that baseline's interval, and
  when the subject has no stored baseline and every reading lies within its seeded
  normal range.
\<close>

theorem C1_within_baseline_no_anomaly:
  assumes "distinct (map fst health_data)"
    and "(case baselines s pid of
            None \<Rightarrow> within_normal_ranges health_data
          | Some b \<Rightarrow> within_baseline b health_data)"
  shows "fst (detect_anomalies s pid health_data now) = Inr []"
proof (cases "baselines s pid")
  case None
  with assms(2) have "within_normal_ranges health_data" by simp
  then show ?thesis
    by (simp add: detect_anomalies_new [OF None assms(1)])
next
  case (Some b)
  with assms(2) have "single_results pid health_data b now = []"
    by (simp add: single_results_empty_iff)
  then show ?thesis
    by (simp add: detect_anomalies_existing [OF Some])
qed

theorem C1_within_baseline_no_anomaly_witness:
  "distinct (map fst [(''heart_rate'', Fin 72), (''glucose'', Fin 100)])
   \<and> baselines init ''p1'' = None
   \<and> within_normal_ranges [(''heart_rate'', Fin 72), (''glucose'', Fin 100)]
   \<and> fst (detect_anomalies init ''p1'' [(''heart_rate'', Fin 72), (''glucose'', Fin 100)] 0) = Inr []
   \<and> baselines (run [Detect ''p1'' [(''glucose'', Fin 100)] 0,
                     Update ''p1'' [(''heart_rate'', Fin 80)] 1]) ''p1'' =
       Some \<lparr>patient_id = ''p1'', heart_rate_baseline = (Fin 70, Fin 90),
         blood_pressure_baseline = (Fin 90, Fin 140), glucose_baseline = (Fin 100, Fin 100),
         oxygen_saturation_baseline = (Fin 95, Fin 100),
         temperature_baseline = (Fin 36.1, Fin 37.2),
         respiratory_rate_baseline = (Fin 12, Fin 20), last_updated = 1, sample_count = 2\<rparr>
   \<and> within_baseline \<lparr>patient_id = ''p1'', heart_rate_baseline = (Fin 70, Fin 90),
         blood_pressure_baseline = (Fin 90, Fin 140), glucose_baseline = (Fin 100, Fin 100),
         oxygen_saturation_baseline = (Fin 95, Fin 100),
         temperature_baseline = (Fin 36.1, Fin 37.2),
         respiratory_rate_baseline = (Fin 12, Fin 20), last_updated = 1, sample_count = 2\<rparr>
        [(''heart_rate'', Fin 72), (''glucose'', Fin 100)]
   \<and> fst (detect_anomalies (run [Detect ''p1'' [(''glucose'', Fin 100)] 0,
                                 Update ''p1'' [(''heart_rate'', Fin 80)] 1])
         ''p1'' [(''heart_rate'', Fin 72), (''glucose'', Fin 100)] 2) = Inr []"
proof -
  let ?obs = "[(''heart_rate'', Fin 72), (''glucose'', Fin 100)]"
  let ?s = "run [Detect ''p1'' [(''glucose'', Fin 100)] 0, Update ''p1'' [(''heart_rate'', Fin 80)] 1]"
  let ?stored = "\<lparr>patient_id = ''p1'', heart_rate_baseline = (Fin 70, Fin 90),
         blood_pressure_baseline = (Fin 90, Fin 140), glucose_baseline = (Fin 100, Fin 100),
         oxygen_saturation_baseline = (Fin 95, Fin 100),
         temperature_baseline = (Fin 36.1, Fin 37.2),
         respiratory_rate_baseline = (Fin 12, Fin 20), last_updated = 1, sample_count = 2\<rparr>"
  have d: "distinct (map fst ?obs)" by simp
  have n: "baselines init ''p1'' = None" by (simp add: init_def)
  have wn: "within_normal_ranges ?obs" by code_simp
  have st: "baselines ?s ''p1'' = Some ?stored" by code_simp
  have wb: "within_baseline ?stored ?obs" by code_simp
  have h1: "(case baselines init ''p1'' of None \<Rightarrow> within_normal_ranges ?obs
      | Some b \<Rightarrow> within_baseline b ?obs)"
    using n wn by simp
  have h2: "(case baselines ?s ''p1'' of None \<Rightarrow> within_normal_ranges ?obs
      | Some b \<Rightarrow> within_baseline b ?obs)"
    using st wb by simp
  from C1_within_baseline_no_anomaly [OF d h1, of 0] C1_within_baseline_no_anomaly [OF d h2, of 2]
    d n wn st wb
  show ?thesis by simp
qed

lemma map_of_filter_other:
  "k \<noteq> d \<Longrightarrow> map_of (filter (\<lambda>(param, v). param \<noteq> d) obs) k = map_of obs k"
  by (induction obs) auto

lemma update_intervals_without_diastolic:
  "update_intervals b (filter (\<lambda>(param, v). param \<noteq> ''blood_pressure_diastolic'') obs) wo wn
    = update_intervals b obs wo wn"
  by (simp add: update_intervals_def map_of_filter_other)

lemma update_patient_baseline_without_diastolic:
  "update_patient_baseline s pid
      (filter (\<lambda>(param, v). param \<noteq> ''blood_pressure_diastolic'') obs) now
    = update_patient_baseline s pid obs now"
  unfolding update_patient_baseline_def update_intervals_without_diastolic by (rule refl)

lemma detect_single_diastolic:
  "detect_single_parameter_anomaly pid ''blood_pressure_diastolic'' v b now = None"
  by (simp add: detect_single_parameter_anomaly_def param_mapping_def)

lemma single_results_without_diastolic:
  "single_results pid (filter (\<lambda>(param, v). param \<noteq> ''blood_pressure_diastolic'') obs) b now
    = single_results pid obs b now"
proof (induction obs)
  case Nil
  show ?case by simp
next
  case (Cons item obs)
  obtain param v where item: "item = (param, v)" by (cases item)
  show ?case
  proof (cases "param = ''blood_pressure_diastolic''")
    case True
    with Cons.IH show ?thesis
      by (simp add: item detect_single_diastolic)
  next
    case False
    with Cons.IH show ?thesis
      by (simp add: item split: option.split)
  qed
qed

lemma with_multi_filter:
  "with_multi pid (filter P obs) rs now = with_multi pid obs rs now"
  by (simp add: with_multi_def detect_multi_parameter_anomaly_def)

text \<open>
  Claim C10. A reading named \<^verbatim>\<open>blood_pressure_diastolic\<close> never gives a result, although
  the configuration holds the normal range (60, 90) for it: the single-parameter detector
  returns nothing for that name, whatever the value and the baseline, and
  \<^verbatim>\<open>detect_anomalies\<close> returns the same results and leaves the same detector as for the
  observation without that reading.
\<close>

theorem C10_diastolic_reading_skipped:
  "map_of normal_ranges ''blood_pressure_diastolic'' = Some (Fin 60, Fin 90)
   \<and> detect_single_parameter_anomaly pid ''blood_pressure_diastolic'' v b now = None
   \<and> detect_anomalies s pid health_data now =
       detect_anomalies s pid
         (filter (\<lambda>(param, v). param \<noteq> ''blood_pressure_diastolic'') health_data) now"
proof -
  have "map_of normal_ranges ''blood_pressure_diastolic'' = Some (Fin 60, Fin 90)"
    by (simp add: normal_ranges_def)
  moreover have "detect_anomalies s pid health_data now =
       detect_anomalies s pid
         (filter (\<lambda>(param, v). param \<noteq> ''blood_pressure_diastolic'') health_data) now"
    unfolding detect_anomalies_def ensure_baseline_def
      update_patient_baseline_without_diastolic single_results_without_diastolic
      with_multi_filter
    by (rule refl)
  ultimately show ?thesis
    using detect_single_diastolic by simp
qed

text \<open>
  Claim C9 fails as stated: for a detector that has not seen subject p1,
  \<^verbatim>\<open>detect_anomalies("p1", {"heart_rate": 130})\<close> returns the empty list. The baseline is
  created from the observation: seeded with (60, 100) and moved onto the reading with
  weight 1, so that the reading is compared with the interval (130, 130).
\<close>

theorem C9_counterexample:
  "map_of normal_ranges ''heart_rate'' = Some (Fin 60, Fin 100)
   \<and> baselines init ''p1'' = None
   \<and> fst (detect_anomalies init ''p1'' [(''heart_rate'', Fin 130)] 0) = Inr []
   \<and> baselines (snd (detect_anomalies init ''p1'' [(''heart_rate'', Fin 130)] 0)) ''p1'' =
       Some \<lparr>patient_id = ''p1'', heart_rate_baseline = (Fin 130, Fin 130),
         blood_pressure_baseline = (Fin 90, Fin 140), glucose_baseline = (Fin 70, Fin 140),
         oxygen_saturation_baseline = (Fin 95, Fin 100),
         temperature_baseline = (Fin 36.1, Fin 37.2),
         respiratory_rate_baseline = (Fin 12, Fin 20), last_updated = 0, sample_count = 1\<rparr>"
  by code_simp

text \<open>
  Claim C9, as amended. For subject p1 with a stored baseline whose heart-rate interval
  is the seeded (60, 100), the observation \<^verbatim>\<open>{"heart_rate": 130}\<close> gives exactly one
  result: type HEART_RATE, severity CRITICAL, confidence 0.95, and the risk factors
  "High severity anomaly" and "Tachycardia".
\<close>

theorem C9_seeded_interval_detects:
  assumes "baselines s ''p1'' = Some b" and "heart_rate_baseline b = (Fin 60, Fin 100)"
  shows "fst (detect_anomalies s ''p1'' [(''heart_rate'', Fin 130)] now) =
    Inr [\<lparr>anomaly_type = HEART_RATE, severity = CRITICAL, confidence = Fin 0.95,
         val = Fin 130, normal_range = (Fin 60, Fin 100), timestamp = now,
         description = ''Heart rate of 130 bpm is outside normal range (60-100 bpm)'',
         recommendations =
           [''Seek immediate medical attention'', ''Monitor heart rate closely'',
            ''Rest and avoid strenuous activity'',
            ''Contact healthcare provider if symptoms persist'',
            ''Prepare emergency contact information''],
         risk_factors = [''High severity anomaly'', ''Tachycardia'']\<rparr>]"
proof -
  have pm: "param_mapping b ''heart_rate'' = Some (Fin 60, Fin 100)"
    by (simp add: param_mapping_def assms(2))
  have outside: "\<not> (Fin 60 \<le> Fin 130 \<and> Fin 130 \<le> Fin 100)"
    by simp
  have rd: "relative_deviation (Fin 130) (Fin 60) (Fin 100) = Fin 1.75"
    by code_simp
  have sev: "severity_of (Fin 1.75) = CRITICAL"
    by code_simp
  have conf: "py_min (Fin 0.95) (Fin 0.5 + Fin 1.75) = Fin 0.95"
    by code_simp
  have tm: "type_mapping ''heart_rate'' = Some HEART_RATE"
    by (simp add: type_mapping_def)
  have desc: "generate_anomaly_description HEART_RATE (Fin 130) (Fin 60, Fin 100) =
      ''Heart rate of 130 bpm is outside normal range (60-100 bpm)''"
    by code_simp
  have recs: "generate_recommendations HEART_RATE CRITICAL (Fin 130) =
      [''Seek immediate medical attention'', ''Monitor heart rate closely'',
       ''Rest and avoid strenuous activity'',
       ''Contact healthcare provider if symptoms persist'',
       ''Prepare emergency contact information'']"
    by code_simp
  have risk: "identify_risk_factors HEART_RATE CRITICAL (Fin 130) =
      [''High severity anomaly'', ''Tachycardia'']"
    by code_simp
  have single: "detect_single_parameter_anomaly ''p1'' ''heart_rate'' (Fin 130) b now =
      Some \<lparr>anomaly_type = HEART_RATE, severity = CRITICAL, confidence = Fin 0.95,
         val = Fin 130, normal_range = (Fin 60, Fin 100), timestamp = now,
         description = ''Heart rate of 130 bpm is outside normal range (60-100 bpm)'',
         recommendations =
           [''Seek immediate medical attention'', ''Monitor heart rate closely'',
            ''Rest and avoid strenuous activity'',
            ''Contact healthcare provider if symptoms persist'',
            ''Prepare emergency contact information''],
         risk_factors = [''High severity anomaly'', ''Tachycardia'']\<rparr>"
    unfolding detect_single_parameter_anomaly_def pm option.case prod.case Let_def
      rd sev conf tm desc recs risk if_not_P [OF outside]
    by (rule refl)
  show ?thesis
    by (simp add: detect_anomalies_existing [OF assms(1)] single)
qed

theorem C9_seeded_interval_detects_witness:
  "baselines (run [Detect ''p1'' [(''temperature'', Fin 36.6)] 0]) ''p1'' =
       Some \<lparr>patient_id = ''p1'', heart_rate_baseline = (Fin 60, Fin 100),
         blood_pressure_baseline = (Fin 90, Fin 140), glucose_baseline = (Fin 70, Fin 140),
         oxygen_saturation_baseline = (Fin 95, Fin 100),
         temperature_baseline = (Fin 36.6, Fin 36.6),
         respiratory_rate_baseline = (Fin 12, Fin 20), last_updated = 0, sample_count = 1\<rparr>
   \<and> heart_rate_baseline \<lparr>patient_id = ''p1'', heart_rate_baseline = (Fin 60, Fin 100),
         blood_pressure_baseline = (Fin 90, Fin 140), glucose_baseline = (Fin 70, Fin 140),
         oxygen_saturation_baseline = (Fin 95, Fin 100),
         temperature_baseline = (Fin 36.6, Fin 36.6),
         respiratory_rate_baseline = (Fin 12, Fin 20), last_updated = 0, sample_count = 1\<rparr>
       = (Fin 60, Fin 100)
   \<and> fst (detect_anomalies (run [Detect ''p1'' [(''temperature'', Fin 36.6)] 0])
          ''p1'' [(''heart_rate'', Fin 130)] 1) =
       Inr [\<lparr>anomaly_type = HEART_RATE, severity = CRITICAL, confidence = Fin 0.95,
         val = Fin 130, normal_range = (Fin 60, Fin 100), timestamp = 1,
         description = ''Heart rate of 130 bpm is outside normal range (60-100 bpm)'',
         recommendations =
           [''Seek immediate medical attention'', ''Monitor heart rate closely'',
            ''Rest and avoid strenuous activity'',
            ''Contact healthcare provider if symptoms persist'',
            ''Prepare emergency contact information''],
         risk_factors = [''High severity anomaly'', ''Tachycardia'']\<rparr>]"
proof -
  let ?s = "run [Detect ''p1'' [(''temperature'', Fin 36.6)] 0]"
  let ?stored = "\<lparr>patient_id = ''p1'', heart_rate_baseline = (Fin 60, Fin 100),
         blood_pressure_baseline = (Fin 90, Fin 140), glucose_baseline = (Fin 70, Fin 140),
         oxygen_saturation_baseline = (Fin 95, Fin 100),
         temperature_baseline = (Fin 36.6, Fin 36.6),
         respiratory_rate_baseline = (Fin 12, Fin 20), last_updated = 0, sample_count = 1\<rparr>"
  have st: "baselines ?s ''p1'' = Some ?stored" by code_simp
  have hr: "heart_rate_baseline ?stored = (Fin 60, Fin 100)" by simp
  from C9_seeded_interval_detects [OF st hr, of 1] st hr show ?thesis
    by (intro conjI)
qed

text \<open>
  Claim C2. The code at an observation with two readings out of range (the one of the
  specification's example): the two single-parameter results are found, and the call then
  raises \<^verbatim>\<open>AttributeError\<close> at line 344 instead of returning a multi-parameter result.
\<close>

theorem C2_two_anomalies_raise:
  "baselines (run [Detect ''p1'' [(''temperature'', Fin 36.6)] 0]) ''p1'' =
       Some \<lparr>patient_id = ''p1'', heart_rate_baseline = (Fin 60, Fin 100),
         blood_pressure_baseline = (Fin 90, Fin 140), glucose_baseline = (Fin 70, Fin 140),
         oxygen_saturation_baseline = (Fin 95, Fin 100),
         temperature_baseline = (Fin 36.6, Fin 36.6),
         respiratory_rate_baseline = (Fin 12, Fin 20), last_updated = 0, sample_count = 1\<rparr>
   \<and> map anomaly_type
        (single_results ''p1'' [(''heart_rate'', Fin 125), (''oxygen_saturation'', Fin 89)]
        \<lparr>patient_id = ''p1'', heart_rate_baseline = (Fin 60, Fin 100),
         blood_pressure_baseline = (Fin 90, Fin 140), glucose_baseline = (Fin 70, Fin 140),
         oxygen_saturation_baseline = (Fin 95, Fin 100),
         temperature_baseline = (Fin 36.6, Fin 36.6),
         respiratory_rate_baseline = (Fin 12, Fin 20), last_updated = 0, sample_count = 1\<rparr> 1)
       = [HEART_RATE, OXYGEN_SATURATION]
   \<and> fst (detect_anomalies (run [Detect ''p1'' [(''temperature'', Fin 36.6)] 0])
          ''p1'' [(''heart_rate'', Fin 125), (''oxygen_saturation'', Fin 89)] 1)
       = Inl AttributeError"
  by code_simp

text \<open>
  Claim C3. The code at two successive observations of one subject: the second call
  raises \<^verbatim>\<open>AttributeError\<close>, and the history of the subject is left as the first call
  left it.
\<close>

theorem C3_second_observation_raises:
  "fst (detect_anomalies init ''p1'' [(''heart_rate'', Fin 70), (''glucose'', Fin 100)] 0) = Inr []
   \<and> fst (detect_anomalies
          (run [Detect ''p1'' [(''heart_rate'', Fin 70), (''glucose'', Fin 100)] 0])
          ''p1'' [(''heart_rate'', Fin 72), (''glucose'', Fin 105)] 1) = Inl AttributeError
   \<and> anomaly_history (snd (detect_anomalies
          (run [Detect ''p1'' [(''heart_rate'', Fin 70), (''glucose'', Fin 100)] 0])
          ''p1'' [(''heart_rate'', Fin 72), (''glucose'', Fin 105)] 1)) ''p1'' = Some []"
  by code_simp

subsection \<open>Confidence\<close>

text \<open>A float that is NaN or not negative.\<close>

lemma abs_nan_or_nonneg: "\<bar>x\<bar> = NaN \<or> Fin 0 \<le> \<bar>x\<bar>" for x :: pyfloat
  by (cases x) simp_all

lemma py_max_nan_or_nonneg:
  assumes "a = NaN \<or> Fin 0 \<le> a" and "b = NaN \<or> Fin 0 \<le> b"
  shows "py_max a b = NaN \<or> Fin 0 \<le> py_max a b"
  using assms by (auto simp: py_max_def)

text \<open>The divisor of line 280 is NaN or at least 1, so it is never 0.\<close>

lemma max_range_nan_or_ge_one:
  "max_range lo hi = NaN \<or> Fin 1 \<le> max_range lo hi"
  by (cases "hi - lo") (auto simp: max_range_def py_max_def)

lemma max_range_nonzero: "max_range lo hi \<noteq> Fin 0"
  using max_range_nan_or_ge_one [of lo hi] by auto

lemma divide_nan_or_nonneg:
  assumes "x = NaN \<or> Fin 0 \<le> x" and "m = NaN \<or> Fin 1 \<le> m"
  shows "x / m = NaN \<or> Fin 0 \<le> x / m"
  using assms by (cases x; cases m) (auto simp: inf_of_sign_def)

lemma relative_deviation_nan_or_nonneg:
  "relative_deviation v lo hi = NaN \<or> Fin 0 \<le> relative_deviation v lo hi"
  unfolding relative_deviation_def Let_def
  by (intro divide_nan_or_nonneg py_max_nan_or_nonneg abs_nan_or_nonneg
      max_range_nan_or_ge_one)

lemma confidence_of_deviation:
  assumes "rd = NaN \<or> Fin 0 \<le> rd"
  shows "Fin 0.5 \<le> py_min (Fin 0.95) (Fin 0.5 + rd) \<and> py_min (Fin 0.95) (Fin 0.5 + rd) \<le> Fin 0.95"
  using assms by (cases rd) (auto simp: py_min_def)

text \<open>The confidence of a single-parameter result is \<^verbatim>\<open>min(0.95, 0.5 + relative_deviation)\<close>,
  which lies between 0.5 and 0.95 for every reading, NaN and the infinities included.\<close>

lemma detect_single_confidence:
  assumes "detect_single_parameter_anomaly pid param v b now = Some r"
  shows "confidence r =
    py_min (Fin 0.95)
      (Fin 0.5 + relative_deviation v (fst (normal_range r)) (snd (normal_range r)))"
  using assms
  by (auto simp: detect_single_parameter_anomaly_def Let_def
      split: option.splits prod.splits if_splits)

lemma detect_single_in_bounds:
  assumes "detect_single_parameter_anomaly pid param v b now = Some r"
  shows "Fin 0.5 \<le> confidence r \<and> confidence r \<le> Fin 0.95"
  unfolding detect_single_confidence [OF assms]
  by (rule confidence_of_deviation [OF relative_deviation_nan_or_nonneg])

lemma single_results_in_bounds:
  "list_all (\<lambda>r. Fin 0.5 \<le> confidence r \<and> confidence r \<le> Fin 0.95)
     (single_results pid obs b now)"
proof (induction obs)
  case Nil
  show ?case by simp
next
  case (Cons item obs)
  obtain param v where item: "item = (param, v)" by (cases item)
  show ?case
    using Cons.IH detect_single_in_bounds [of pid param v b now]
    by (simp add: item split: option.split)
qed

text \<open>Every result that \<^verbatim>\<open>detect_anomalies\<close> returns is one of the single-parameter
  results, so its confidence lies between 0.5 and 0.95.\<close>

lemma detect_anomalies_results:
  assumes "fst (detect_anomalies s pid obs now) = Inr rs"
  shows "\<exists>b. rs = single_results pid obs b now \<and> length rs \<le> 1"
  using assms
  by (auto simp: detect_anomalies_def with_multi_eq
      split: prod.splits sum.splits option.splits if_splits)

lemma detect_anomalies_in_bounds:
  assumes "fst (detect_anomalies s pid obs now) = Inr rs"
  shows "list_all (\<lambda>r. Fin 0.5 \<le> confidence r \<and> confidence r \<le> Fin 0.95) rs"
  using detect_anomalies_results [OF assms] single_results_in_bounds by auto


subsection \<open>What a detection leaves in the detector\<close>

lemma detect_anomalies_baselines:
  "baselines (snd (detect_anomalies s pid obs now)) = baselines (snd (ensure_baseline s pid obs now))"
  by (simp add: detect_anomalies_def record_history_def Let_def
      split: prod.split sum.split option.split)

lemma detect_anomalies_history:
  "anomaly_history (snd (detect_anomalies s pid obs now)) =
    (case fst (detect_anomalies s pid obs now) of
       Inl e \<Rightarrow> anomaly_history (snd (ensure_baseline s pid obs now))
     | Inr rs \<Rightarrow> anomaly_history (record_history (snd (ensure_baseline s pid obs now)) pid rs))"
  by (simp add: detect_anomalies_def split: prod.split sum.split option.split)

lemma update_patient_baseline_history:
  "anomaly_history (snd (update_patient_baseline s pid obs now)) = anomaly_history s"
  by (simp add: update_patient_baseline_def Let_def split: option.split sum.split prod.split)

lemma ensure_baseline_history:
  "anomaly_history (snd (ensure_baseline s pid obs now)) = anomaly_history s"
proof (cases "baselines s pid")
  case None
  obtain r s' where u: "update_patient_baseline s pid obs now = (r, s')"
    by (cases "update_patient_baseline s pid obs now")
  with update_patient_baseline_history [of s pid obs now]
  have "anomaly_history s' = anomaly_history s" by simp
  then show ?thesis
    by (cases r) (simp_all add: ensure_baseline_def None u)
next
  case (Some b)
  then show ?thesis by (simp add: ensure_baseline_def)
qed

lemma record_history_history:
  "anomaly_history (record_history s pid rs) =
    (anomaly_history s)(pid \<mapsto>
      (let h = (case anomaly_history s pid of None \<Rightarrow> [] | Some old \<Rightarrow> old) @ rs
       in drop (length h - 100) h))"
  by (simp add: record_history_def Let_def)

lemma record_history_length:
  "anomaly_history (record_history s pid rs) q = Some h \<Longrightarrow>
    (\<forall>h'. anomaly_history s q = Some h' \<longrightarrow> length h' \<le> 100) \<Longrightarrow> length h \<le> 100"
  by (auto simp: record_history_history Let_def split: if_splits)

text \<open>A call leaves every history within the capacity if it found every history so.\<close>

lemma step_history_bounded:
  assumes "\<forall>q h. anomaly_history s q = Some h \<longrightarrow> length h \<le> 100"
  shows "\<forall>q h. anomaly_history (step s c) q = Some h \<longrightarrow> length h \<le> 100"
proof (cases c)
  case (Detect pid obs now)
  show ?thesis
  proof (cases "fst (detect_anomalies s pid obs now)")
    case (Inl e)
    then show ?thesis
      using assms by (simp add: Detect detect_anomalies_history ensure_baseline_history)
  next
    case (Inr rs)
    have "anomaly_history (step s c) =
        anomaly_history (record_history (snd (ensure_baseline s pid obs now)) pid rs)"
      by (simp add: Detect detect_anomalies_history Inr)
    then show ?thesis
      using assms record_history_length [of "snd (ensure_baseline s pid obs now)" pid rs]
      by (simp add: ensure_baseline_history)
  qed
next
  case (Update pid obs now)
  then show ?thesis
    using assms by (simp add: update_patient_baseline_history)
qed

lemma run_history_bounded:
  "\<forall>q h. anomaly_history (run calls) q = Some h \<longrightarrow> length h \<le> 100"
proof (induction calls rule: rev_induct)
  case Nil
  show ?case by (simp add: run_Nil init_def)
next
  case (snoc c calls)
  then show ?case
    unfolding run_snoc by (rule step_history_bounded)
qed

text \<open>
  Claim C7. After any sequence of calls on a new detector, no subject's history holds
  more than 100 entries; and a call of \<^verbatim>\<open>detect_anomalies\<close> that returns leaves as the
  subject's history the old entries followed by the returned ones, without as many of
  the first entries as exceed 100.
\<close>

theorem C7_history_bounded_fifo:
  "(\<forall>h. anomaly_history (run calls) pid = Some h \<longrightarrow> length h \<le> 100)
   \<and> (\<forall>rs. fst (detect_anomalies s pid health_data now) = Inr rs \<longrightarrow>
        anomaly_history (snd (detect_anomalies s pid health_data now)) pid =
          Some (let h = (case anomaly_history s pid of None \<Rightarrow> [] | Some old \<Rightarrow> old) @ rs
                in drop (length h - 100) h))"
proof (intro conjI allI impI)
  fix h
  assume "anomaly_history (run calls) pid = Some h"
  then show "length h \<le> 100"
    using run_history_bounded by blast
next
  fix rs
  assume "fst (detect_anomalies s pid health_data now) = Inr rs"
  then show "anomaly_history (snd (detect_anomalies s pid health_data now)) pid =
      Some (let h = (case anomaly_history s pid of None \<Rightarrow> [] | Some old \<Rightarrow> old) @ rs
            in drop (length h - 100) h)"
    by (simp add: detect_anomalies_history record_history_history ensure_baseline_history)
qed

theorem C7_history_bounded_fifo_witness:
  "anomaly_history (run [Detect ''p1'' [(''heart_rate'', Fin 70)] 0,
                         Detect ''p1'' [(''heart_rate'', Fin 70.2)] 1]) ''p1'' =
      Some [\<lparr>anomaly_type = HEART_RATE, severity = MEDIUM, confidence = Fin 0.7,
          val = Fin 70.2, normal_range = (Fin 70, Fin 70), timestamp = 1,
          description = ''Heart rate of 70 bpm is outside normal range (70-70 bpm)'',
          recommendations =
            [''Monitor heart rate closely'', ''Rest and avoid strenuous activity'',
             ''Contact healthcare provider if symptoms persist''],
          risk_factors = []\<rparr>]
   \<and> length [\<lparr>anomaly_type = HEART_RATE, severity = MEDIUM, confidence = Fin 0.7,
          val = Fin 70.2, normal_range = (Fin 70, Fin 70), timestamp = 1,
          description = ''Heart rate of 70 bpm is outside normal range (70-70 bpm)'',
          recommendations =
            [''Monitor heart rate closely'', ''Rest and avoid strenuous activity'',
             ''Contact healthcare provider if symptoms persist''],
          risk_factors = []\<rparr>] \<le> 100
   \<and> fst (detect_anomalies
        \<lparr>baselines = [''p1'' \<mapsto> \<lparr>patient_id = ''p1'', heart_rate_baseline = (Fin 70, Fin 70),
           blood_pressure_baseline = (Fin 90, Fin 140), glucose_baseline = (Fin 70, Fin 140),
           oxygen_saturation_baseline = (Fin 95, Fin 100), temperature_baseline = (Fin 36.1, Fin 37.2),
           respiratory_rate_baseline = (Fin 12, Fin 20), last_updated = 0, sample_count = 1\<rparr>],
         anomaly_history = [''p1'' \<mapsto> replicate 100
           \<lparr>anomaly_type = HEART_RATE, severity = MEDIUM, confidence = Fin 0.7,
            val = Fin 70.2, normal_range = (Fin 70, Fin 70), timestamp = 1,
            description = ''Heart rate of 70 bpm is outside normal range (70-70 bpm)'',
            recommendations =
              [''Monitor heart rate closely'', ''Rest and avoid strenuous activity'',
               ''Contact healthcare provider if symptoms persist''],
            risk_factors = []\<rparr>]\<rparr>
        ''p1'' [(''heart_rate'', Fin 130)] 2)
      = Inr [\<lparr>anomaly_type = HEART_RATE, severity = CRITICAL, confidence = Fin 0.95,
         val = Fin 130, normal_range = (Fin 70, Fin 70), timestamp = 2,
         description = ''Heart rate of 130 bpm is outside normal range (70-70 bpm)'',
         recommendations =
           [''Seek immediate medical attention'', ''Monitor heart rate closely'',
            ''Rest and avoid strenuous activity'',
            ''Contact healthcare provider if symptoms persist'',
            ''Prepare emergency contact information''],
         risk_factors = [''High severity anomaly'', ''Tachycardia'']\<rparr>]
   \<and> anomaly_history (snd (detect_anomalies
        \<lparr>baselines = [''p1'' \<mapsto> \<lparr>patient_id = ''p1'', heart_rate_baseline = (Fin 70, Fin 70),
           blood_pressure_baseline = (Fin 90, Fin 140), glucose_baseline = (Fin 70, Fin 140),
           oxygen_saturation_baseline = (Fin 95, Fin 100), temperature_baseline = (Fin 36.1, Fin 37.2),
           respiratory_rate_baseline = (Fin 12, Fin 20), last_updated = 0, sample_count = 1\<rparr>],
         anomaly_history = [''p1'' \<mapsto> replicate 100
           \<lparr>anomaly_type = HEART_RATE, severity = MEDIUM, confidence = Fin 0.7,
            val = Fin 70.2, normal_range = (Fin 70, Fin 70), timestamp = 1,
            description = ''Heart rate of 70 bpm is outside normal range (70-70 bpm)'',
            recommendations =
              [''Monitor heart rate closely'', ''Rest and avoid strenuous activity'',
               ''Contact healthcare provider if symptoms persist''],
            risk_factors = []\<rparr>]\<rparr>
        ''p1'' [(''heart_rate'', Fin 130)] 2)) ''p1''
      = Some (replicate 99
           \<lparr>anomaly_type = HEART_RATE, severity = MEDIUM, confidence = Fin 0.7,
            val = Fin 70.2, normal_range = (Fin 70, Fin 70), timestamp = 1,
            description = ''Heart rate of 70 bpm is outside normal range (70-70 bpm)'',
            recommendations =
              [''Monitor heart rate closely'', ''Rest and avoid strenuous activity'',
               ''Contact healthcare provider if symptoms persist''],
            risk_factors = []\<rparr>
          @ [\<lparr>anomaly_type = HEART_RATE, severity = CRITICAL, confidence = Fin 0.95,
         val = Fin 130, normal_range = (Fin 70, Fin 70), timestamp = 2,
         description = ''Heart rate of 130 bpm is outside normal range (70-70 bpm)'',
         recommendations =
           [''Seek immediate medical attention'', ''Monitor heart rate closely'',
            ''Rest and avoid strenuous activity'',
            ''Contact healthcare provider if symptoms persist'',
            ''Prepare emergency contact information''],
         risk_factors = [''High severity anomaly'', ''Tachycardia'']\<rparr>])"
proof -
  let ?stored = "\<lparr>patient_id = ''p1'', heart_rate_baseline = (Fin 70, Fin 70),
           blood_pressure_baseline = (Fin 90, Fin 140), glucose_baseline = (Fin 70, Fin 140),
           oxygen_saturation_baseline = (Fin 95, Fin 100), temperature_baseline = (Fin 36.1, Fin 37.2),
           respiratory_rate_baseline = (Fin 12, Fin 20), last_updated = 0, sample_count = 1\<rparr>"
  let ?r = "\<lparr>anomaly_type = HEART_RATE, severity = MEDIUM, confidence = Fin 0.7,
          val = Fin 70.2, normal_range = (Fin 70, Fin 70), timestamp = 1,
          description = ''Heart rate of 70 bpm is outside normal range (70-70 bpm)'',
          recommendations =
            [''Monitor heart rate closely'', ''Rest and avoid strenuous activity'',
             ''Contact healthcare provider if symptoms persist''],
          risk_factors = []\<rparr>"
  let ?r' = "\<lparr>anomaly_type = HEART_RATE, severity = CRITICAL, confidence = Fin 0.95,
         val = Fin 130, normal_range = (Fin 70, Fin 70), timestamp = 2,
         description = ''Heart rate of 130 bpm is outside normal range (70-70 bpm)'',
         recommendations =
           [''Seek immediate medical attention'', ''Monitor heart rate closely'',
            ''Rest and avoid strenuous activity'',
            ''Contact healthcare provider if symptoms persist'',
            ''Prepare emergency contact information''],
         risk_factors = [''High severity anomaly'', ''Tachycardia'']\<rparr>"
  let ?calls = "[Detect ''p1'' [(''heart_rate'', Fin 70)] 0, Detect ''p1'' [(''heart_rate'', Fin 70.2)] 1]"
  let ?s = "\<lparr>baselines = [''p1'' \<mapsto> ?stored], anomaly_history = [''p1'' \<mapsto> replicate 100 ?r]\<rparr>"
  note c7 = C7_history_bounded_fifo [of ?calls "''p1''" ?s "[(''heart_rate'', Fin 130)]" 2]
  have h1: "anomaly_history (run ?calls) ''p1'' = Some [?r]"
    by code_simp
  with c7 have c1: "length [?r] \<le> 100"
    by blast
  have single: "single_results ''p1'' [(''heart_rate'', Fin 130)] ?stored 2 = [?r']"
    by code_simp
  have stored: "baselines ?s ''p1'' = Some ?stored"
    by simp
  have h2: "fst (detect_anomalies ?s ''p1'' [(''heart_rate'', Fin 130)] 2) = Inr [?r']"
    unfolding detect_anomalies_existing [OF stored] single by simp
  with c7 have "anomaly_history (snd (detect_anomalies ?s ''p1'' [(''heart_rate'', Fin 130)] 2)) ''p1'' =
      Some (let h = (case anomaly_history ?s ''p1'' of None \<Rightarrow> [] | Some old \<Rightarrow> old) @ [?r']
            in drop (length h - 100) h)"
    by blast
  then have c2: "anomaly_history (snd (detect_anomalies ?s ''p1'' [(''heart_rate'', Fin 130)] 2)) ''p1''
      = Some (replicate 99 ?r @ [?r'])"
    by (simp add: Let_def)
  from h1 c1 h2 c2 show ?thesis
    by (intro conjI)
qed

text \<open>
  Claim C5 fails as stated: a second observation of a subject leaves the baseline as
  the first one left it, sample count 1 and heart-rate interval (70, 70).
\<close>

theorem C5_counterexample:
  "baselines (run [Detect ''p1'' [(''heart_rate'', Fin 70)] 0]) ''p1'' =
       Some \<lparr>patient_id = ''p1'', heart_rate_baseline = (Fin 70, Fin 70),
         blood_pressure_baseline = (Fin 90, Fin 140), glucose_baseline = (Fin 70, Fin 140),
         oxygen_saturation_baseline = (Fin 95, Fin 100), temperature_baseline = (Fin 36.1, Fin 37.2),
         respiratory_rate_baseline = (Fin 12, Fin 20), last_updated = 0, sample_count = 1\<rparr>
   \<and> baselines (snd (detect_anomalies (run [Detect ''p1'' [(''heart_rate'', Fin 70)] 0])
        ''p1'' [(''heart_rate'', Fin 80)] 1)) ''p1'' =
       Some \<lparr>patient_id = ''p1'', heart_rate_baseline = (Fin 70, Fin 70),
         blood_pressure_baseline = (Fin 90, Fin 140), glucose_baseline = (Fin 70, Fin 140),
         oxygen_saturation_baseline = (Fin 95, Fin 100), temperature_baseline = (Fin 36.1, Fin 37.2),
         respiratory_rate_baseline = (Fin 12, Fin 20), last_updated = 0, sample_count = 1\<rparr>"
  by code_simp

text \<open>
  Claim C5, as amended. \<^verbatim>\<open>detect_anomalies\<close> writes the baseline of a subject only when
  the subject has none: the stored baseline is then the seeded one moved onto the
  observation's readings by the weighted average with weights 0 (old) and 1 (new),
  with sample count 1. For a subject that has a baseline, the call leaves all baselines
  as they were.
\<close>

theorem C5_baseline_written_at_creation_only:
  "(\<forall>b. baselines s pid = Some b \<longrightarrow>
      baselines (snd (detect_anomalies s pid health_data now)) = baselines s)
   \<and> (\<forall>b0. baselines s pid = None \<and> seed_baseline pid now = Inr b0 \<longrightarrow>
        baselines (snd (detect_anomalies s pid health_data now)) =
          (baselines s)(pid \<mapsto>
            (update_intervals b0 health_data (Fin 0) (Fin 1))\<lparr>last_updated := now, sample_count := 1\<rparr>))"
proof (intro conjI allI impI)
  fix b
  assume "baselines s pid = Some b"
  then show "baselines (snd (detect_anomalies s pid health_data now)) = baselines s"
    by (simp add: detect_anomalies_baselines ensure_baseline_existing)
next
  fix b0
  assume a: "baselines s pid = None \<and> seed_baseline pid now = Inr b0"
  then have n: "baselines s pid = None" and sd: "seed_baseline pid now = Inr b0"
    by simp_all
  show "baselines (snd (detect_anomalies s pid health_data now)) =
      (baselines s)(pid \<mapsto>
        (update_intervals b0 health_data (Fin 0) (Fin 1))\<lparr>last_updated := now, sample_count := 1\<rparr>)"
    by (simp add: detect_anomalies_baselines ensure_baseline_new [OF n]
        update_patient_baseline_new [OF n sd] Let_def)
qed

theorem C5_baseline_written_at_creation_only_witness:
  "baselines init ''p1'' = None
   \<and> seed_baseline ''p1'' 0 =
       Inr \<lparr>patient_id = ''p1'', heart_rate_baseline = (Fin 60, Fin 100),
         blood_pressure_baseline = (Fin 90, Fin 140), glucose_baseline = (Fin 70, Fin 140),
         oxygen_saturation_baseline = (Fin 95, Fin 100), temperature_baseline = (Fin 36.1, Fin 37.2),
         respiratory_rate_baseline = (Fin 12, Fin 20), last_updated = 0, sample_count = 1\<rparr>
   \<and> baselines (snd (detect_anomalies init ''p1'' [(''heart_rate'', Fin 70)] 0)) ''p1'' =
       Some \<lparr>patient_id = ''p1'', heart_rate_baseline = (Fin 70, Fin 70),
         blood_pressure_baseline = (Fin 90, Fin 140), glucose_baseline = (Fin 70, Fin 140),
         oxygen_saturation_baseline = (Fin 95, Fin 100), temperature_baseline = (Fin 36.1, Fin 37.2),
         respiratory_rate_baseline = (Fin 12, Fin 20), last_updated = 0, sample_count = 1\<rparr>
   \<and> baselines (run [Detect ''p1'' [(''heart_rate'', Fin 70)] 0]) ''p1'' =
       Some \<lparr>patient_id = ''p1'', heart_rate_baseline = (Fin 70, Fin 70),
         blood_pressure_baseline = (Fin 90, Fin 140), glucose_baseline = (Fin 70, Fin 140),
         oxygen_saturation_baseline = (Fin 95, Fin 100), temperature_baseline = (Fin 36.1, Fin 37.2),
         respiratory_rate_baseline = (Fin 12, Fin 20), last_updated = 0, sample_count = 1\<rparr>
   \<and> baselines (snd (detect_anomalies (run [Detect ''p1'' [(''heart_rate'', Fin 70)] 0])
         ''p1'' [(''heart_rate'', Fin 80)] 1)) =
       baselines (run [Detect ''p1'' [(''heart_rate'', Fin 70)] 0])"
proof -
  let ?seed = "\<lparr>patient_id = ''p1'', heart_rate_baseline = (Fin 60, Fin 100),
         blood_pressure_baseline = (Fin 90, Fin 140), glucose_baseline = (Fin 70, Fin 140),
         oxygen_saturation_baseline = (Fin 95, Fin 100), temperature_baseline = (Fin 36.1, Fin 37.2),
         respiratory_rate_baseline = (Fin 12, Fin 20), last_updated = 0, sample_count = 1\<rparr>"
  let ?first = "\<lparr>patient_id = ''p1'', heart_rate_baseline = (Fin 70, Fin 70),
         blood_pressure_baseline = (Fin 90, Fin 140), glucose_baseline = (Fin 70, Fin 140),
         oxygen_saturation_baseline = (Fin 95, Fin 100), temperature_baseline = (Fin 36.1, Fin 37.2),
         respiratory_rate_baseline = (Fin 12, Fin 20), last_updated = 0, sample_count = 1\<rparr>"
  let ?s = "run [Detect ''p1'' [(''heart_rate'', Fin 70)] 0]"
  have n: "baselines init ''p1'' = None" by (simp add: init_def)
  have sd: "seed_baseline ''p1'' 0 = Inr ?seed" by (rule seed_baseline_eq)
  have st: "baselines ?s ''p1'' = Some ?first" by code_simp
  have up: "(update_intervals ?seed [(''heart_rate'', Fin 70)] (Fin 0) (Fin 1))\<lparr>last_updated := 0, sample_count := 1\<rparr>
      = ?first"
    by (simp add: update_intervals_def weighted_def)
  from C5_baseline_written_at_creation_only [of init "''p1''" "[(''heart_rate'', Fin 70)]" 0] n sd
  have "baselines (snd (detect_anomalies init ''p1'' [(''heart_rate'', Fin 70)] 0)) =
      (baselines init)(''p1'' \<mapsto>
        (update_intervals ?seed [(''heart_rate'', Fin 70)] (Fin 0) (Fin 1))\<lparr>last_updated := 0, sample_count := 1\<rparr>)"
    by blast
  then have new: "baselines (snd (detect_anomalies init ''p1'' [(''heart_rate'', Fin 70)] 0)) ''p1''
      = Some ?first"
    by (simp only: up fun_upd_same)
  from C5_baseline_written_at_creation_only [of ?s "''p1''" "[(''heart_rate'', Fin 80)]" 1] st
  have old: "baselines (snd (detect_anomalies ?s ''p1'' [(''heart_rate'', Fin 80)] 1)) = baselines ?s"
    by blast
  from n sd new st old show ?thesis by simp
qed

end
